theory Spec2Isabelle
  imports Complex_Main "HOL-Library.AList" "HOL-Library.Multiset"
begin

section \<open>Data model\<close>

text \<open>
  The routines of \<open>utils.py\<close> work on pandas data frames and series. A cell of a
  frame is a float, a boolean, a label, or missing (pandas' NaN). A frame has its
  column names and its rows; a row gives the cell of every column.

  A finite float is the real number it stands for. Where a routine computes with floats,
  the model says which operations it performs; what a float operation returns is either
  a parameter of the model (the quartile arithmetic of \<open>find_outliers\<close>) or the exact
  real result (the Wilson interval and the chi-squared statistic), and overflow is not
  modelled. The special values that numpy produces instead of raising (not-a-number
  and the two infinities) are values of their own.
\<close>

datatype cell = Num real | Bool bool | Str string | NA

type_synonym row = "string \<Rightarrow> cell"

record frame =
  columns :: "string list"
  rows :: "row list"

datatype error =
    KeyError
  | TypeError
  | ValueError
  | UndefinedVariableError
  | SyntaxError

datatype npfloat = Fin real | PInf | NInf | NaN

text \<open>\<open>df[col]\<close>: the cells of a column, or KeyError when the frame has no such column.\<close>

definition getcol :: "frame \<Rightarrow> string \<Rightarrow> error + cell list" where
  "getcol df col =
     (if col \<in> set (columns df) then Inr (map (\<lambda>r. r col) (rows df)) else Inl KeyError)"

text \<open>
  The reductions \<open>sum\<close> and \<open>mean\<close> read floats and missing values, and a boolean as
  0 or 1; a label makes them raise TypeError.
\<close>

fun as_number :: "cell \<Rightarrow> error + real option" where
  "as_number (Num x) = Inr (Some x)"
| "as_number (Bool b) = Inr (Some (if b then 1 else 0))"
| "as_number NA = Inr None"
| "as_number (Str s) = Inl TypeError"

fun numeric :: "cell list \<Rightarrow> error + real option list" where
  "numeric [] = Inr []"
| "numeric (c # cs) =
     (case as_number c of
        Inl e \<Rightarrow> Inl e
      | Inr v \<Rightarrow> (case numeric cs of Inl e \<Rightarrow> Inl e | Inr vs \<Rightarrow> Inr (v # vs)))"

text \<open>
  The quartile arithmetic of \<open>find_outliers\<close> needs floats: a label makes \<open>quantile\<close>
  raise TypeError, and a boolean makes \<open>Q3 - Q1\<close> raise it, since numpy does not
  subtract booleans.
\<close>

fun as_float :: "cell \<Rightarrow> error + real option" where
  "as_float (Num x) = Inr (Some x)"
| "as_float NA = Inr None"
| "as_float (Bool b) = Inl TypeError"
| "as_float (Str s) = Inl TypeError"

fun floats :: "cell list \<Rightarrow> error + real option list" where
  "floats [] = Inr []"
| "floats (c # cs) =
     (case as_float c of
        Inl e \<Rightarrow> Inl e
      | Inr v \<Rightarrow> (case floats cs of Inl e \<Rightarrow> Inl e | Inr vs \<Rightarrow> Inr (v # vs)))"

text \<open>The non-missing values of a numeric column (\<open>skipna\<close>, \<open>dropna\<close>).\<close>

definition valid :: "real option list \<Rightarrow> real list" where
  "valid xs = map the (filter (\<lambda>v. v \<noteq> None) xs)"

section \<open>Outlier detection\<close>

text \<open>
  The float operations of \<open>find_outliers\<close>: numpy's interpolation between two values
  (\<open>lerp a b t\<close>, for \<open>a + (b - a) * t\<close>), and the subtraction, multiplication and
  addition of \<open>IQR = Q3 - Q1\<close>, \<open>Q1 - 1.5 * IQR\<close> and \<open>Q3 + 1.5 * IQR\<close>. Each rounds
  its result, so the four are parameters of the model; \<open>exact_arith\<close> is arithmetic
  without rounding.
\<close>

record arith =
  lerp :: "real \<Rightarrow> real \<Rightarrow> real \<Rightarrow> real"
  fsub :: "real \<Rightarrow> real \<Rightarrow> real"
  fmul :: "real \<Rightarrow> real \<Rightarrow> real"
  fadd :: "real \<Rightarrow> real \<Rightarrow> real"

definition exact_arith :: arith where
  "exact_arith =
     \<lparr>lerp = (\<lambda>a b t. a + (b - a) * t), fsub = (\<lambda>a b. a - b),
      fmul = (\<lambda>a b. a * b), fadd = (\<lambda>a b. a + b)\<rparr>"

text \<open>
  \<open>Series.quantile(q)\<close> with the default linear interpolation: missing values are
  dropped; with no value left the result is NaN (here \<open>None\<close>); otherwise the sorted
  values are read at the fractional position \<open>(m - 1) * q\<close>, interpolating between
  the value at the rank below and the value at the next rank, which is clipped to the
  last. The position is exact for the quartiles of any frame that fits in memory. A
  \<open>q\<close> outside \<open>[0, 1]\<close> raises ValueError.
\<close>

definition quantile :: "arith \<Rightarrow> real option list \<Rightarrow> real \<Rightarrow> error + real option" where
  "quantile ar xs q =
     (if q < 0 \<or> 1 < q then Inl ValueError
      else
        let v = sort (valid xs); m = length v in
        if m = 0 then Inr None
        else
          let h = real (m - 1) * q;
              i = nat \<lfloor>h\<rfloor>;
              g = h - real i;
              lo = v ! i;
              hi = v ! min (i + 1) (m - 1)
          in Inr (Some (lerp ar lo hi g)))"

text \<open>The number in a cell, for sorting rows whose cell is a number.\<close>

fun num_of :: "cell \<Rightarrow> real" where
  "num_of (Num x) = x"
| "num_of _ = 0"

text \<open>
  \<open>df.query("col < lower or col > upper")\<close>: the rows whose cell compares true. A
  comparison with a missing cell is false.
\<close>

fun outside :: "real \<Rightarrow> real \<Rightarrow> cell \<Rightarrow> bool" where
  "outside lower upper (Num x) = (x < lower \<or> upper < x)"
| "outside lower upper _ = False"

definition query_outside :: "string \<Rightarrow> real \<Rightarrow> real \<Rightarrow> row list \<Rightarrow> row list" where
  "query_outside col lower upper rs = filter (\<lambda>r. outside lower upper (r col)) rs"

text \<open>
  The column name is pasted into the query string, which pandas parses as a Python
  expression. The name stands for the column when it is an identifier: a letter or
  an underscore, then letters, digits and underscores, and not a reserved word. Any other
  name makes the string another expression; the model lets the query raise
  SyntaxError for all of them, as it does for a name with a blank or a reserved word.
  Column names are ASCII.
\<close>

definition letters :: string where
  "letters = ''abcdefghijklmnopqrstuvwxyzABCDEFGHIJKLMNOPQRSTUVWXYZ_''"

definition digits :: string where
  "digits = ''0123456789''"

definition reserved :: "string list" where
  "reserved =
     [''False'', ''None'', ''True'', ''and'', ''as'', ''assert'', ''async'', ''await'',
      ''break'', ''class'', ''continue'', ''def'', ''del'', ''elif'', ''else'', ''except'',
      ''finally'', ''for'', ''from'', ''global'', ''if'', ''import'', ''in'', ''is'',
      ''lambda'', ''nonlocal'', ''not'', ''or'', ''pass'', ''raise'', ''return'', ''try'',
      ''while'', ''with'', ''yield'']"

fun py_name :: "string \<Rightarrow> bool" where
  "py_name [] = False"
| "py_name (c # cs) =
     (c \<in> set letters \<and> list_all (\<lambda>d. d \<in> set (letters @ digits)) cs \<and>
      c # cs \<notin> set reserved)"

text \<open>
  \<open>sort_values(col)\<close>: ascending by the column, rows with a missing cell last.
  Rows with equal keys keep their order here; pandas' default sort may order them
  otherwise.
\<close>

definition sort_values :: "string \<Rightarrow> row list \<Rightarrow> row list" where
  "sort_values col rs =
     sort_key (\<lambda>r. num_of (r col)) (filter (\<lambda>r. r col \<noteq> NA) rs) @ filter (\<lambda>r. r col = NA) rs"

text \<open>
  \<open>tail(n)\<close> is \<open>iloc[-n:]\<close>, and the empty frame for \<open>n = 0\<close>: the last \<open>n\<close> rows for
  a positive \<open>n\<close>, all rows but the first \<open>-n\<close> for a negative one.
\<close>

definition tail :: "int \<Rightarrow> 'a list \<Rightarrow> 'a list" where
  "tail n xs =
     (if n = 0 then []
      else if 0 < n then drop (length xs - nat n) xs
      else drop (nat (- n)) xs)"

text \<open>
  \<open>find_outliers\<close>. The quartiles and the bounds come first; then the bounds are
  formatted into the query string. A NaN bound is written \<open>nan\<close>, a name the query
  does not know, so the query raises UndefinedVariableError.
\<close>

definition find_outliers :: "arith \<Rightarrow> frame \<Rightarrow> string \<Rightarrow> int \<Rightarrow> error + frame" where
  "find_outliers ar df col outliers_num =
     (case getcol df col of
        Inl e \<Rightarrow> Inl e
      | Inr cs \<Rightarrow>
     (case floats cs of
        Inl e \<Rightarrow> Inl e
      | Inr xs \<Rightarrow>
     (case quantile ar xs (1 / 4) of
        Inl e \<Rightarrow> Inl e
      | Inr Q1o \<Rightarrow>
     (case quantile ar xs (3 / 4) of
        Inl e \<Rightarrow> Inl e
      | Inr Q3o \<Rightarrow>
        if \<not> py_name col then Inl SyntaxError
        else
     (case (Q1o, Q3o) of
        (Some Q1, Some Q3) \<Rightarrow>
          let IQR = fsub ar Q3 Q1;
              lower_bound = fsub ar Q1 (fmul ar 1.5 IQR);
              upper_bound = fadd ar Q3 (fmul ar 1.5 IQR)
          in Inr (df\<lparr>rows :=
                    tail outliers_num
                      (sort_values col (query_outside col lower_bound upper_bound (rows df)))\<rparr>)
      | _ \<Rightarrow> Inl UndefinedVariableError)))))"

subsection \<open>The quartiles and bounds as the specification defines them\<close>

text \<open>
  Linear interpolation between closest ranks: in the ascending values \<open>v\<close>, the
  quantile \<open>q\<close> sits at the position \<open>p = q * (m - 1)\<close>, between the ranks below and
  above \<open>p\<close>, in proportion to the fractional part of \<open>p\<close>. The bounds are
  \<open>Q1 - 1.5 * IQR\<close> and \<open>Q3 + 1.5 * IQR\<close> with \<open>IQR = Q3 - Q1\<close>, in the arithmetic
  given.
\<close>

definition spec_quartile :: "arith \<Rightarrow> real list \<Rightarrow> real \<Rightarrow> real" where
  "spec_quartile ar v q =
     (let p = q * real (length v - 1)
      in lerp ar (v ! nat \<lfloor>p\<rfloor>) (v ! nat \<lceil>p\<rceil>) (p - of_int \<lfloor>p\<rfloor>))"

definition spec_lower :: "arith \<Rightarrow> real list \<Rightarrow> real" where
  "spec_lower ar v =
     (let Q1 = spec_quartile ar v (1 / 4); Q3 = spec_quartile ar v (3 / 4);
          IQR = fsub ar Q3 Q1
      in fsub ar Q1 (fmul ar 1.5 IQR))"

definition spec_upper :: "arith \<Rightarrow> real list \<Rightarrow> real" where
  "spec_upper ar v =
     (let Q1 = spec_quartile ar v (1 / 4); Q3 = spec_quartile ar v (3 / 4);
          IQR = fsub ar Q3 Q1
      in fadd ar Q3 (fmul ar 1.5 IQR))"

section \<open>Arithmetic with numpy's special values\<close>

text \<open>
  numpy does not raise on a division by zero or on the square root of a negative
  number: it warns and yields an infinity or NaN, which then propagate. A comparison
  with NaN is false.
\<close>

fun np_add :: "npfloat \<Rightarrow> npfloat \<Rightarrow> npfloat" where
  "np_add (Fin a) (Fin b) = Fin (a + b)"
| "np_add NaN _ = NaN"
| "np_add _ NaN = NaN"
| "np_add PInf NInf = NaN"
| "np_add NInf PInf = NaN"
| "np_add PInf _ = PInf"
| "np_add _ PInf = PInf"
| "np_add NInf _ = NInf"
| "np_add _ NInf = NInf"

fun np_neg :: "npfloat \<Rightarrow> npfloat" where
  "np_neg (Fin a) = Fin (- a)"
| "np_neg PInf = NInf"
| "np_neg NInf = PInf"
| "np_neg NaN = NaN"

definition np_sub :: "npfloat \<Rightarrow> npfloat \<Rightarrow> npfloat" where
  "np_sub a b = np_add a (np_neg b)"

fun np_mul :: "npfloat \<Rightarrow> npfloat \<Rightarrow> npfloat" where
  "np_mul (Fin a) (Fin b) = Fin (a * b)"
| "np_mul NaN _ = NaN"
| "np_mul _ NaN = NaN"
| "np_mul (Fin a) PInf = (if a = 0 then NaN else if 0 < a then PInf else NInf)"
| "np_mul (Fin a) NInf = (if a = 0 then NaN else if 0 < a then NInf else PInf)"
| "np_mul PInf (Fin b) = (if b = 0 then NaN else if 0 < b then PInf else NInf)"
| "np_mul NInf (Fin b) = (if b = 0 then NaN else if 0 < b then NInf else PInf)"
| "np_mul PInf PInf = PInf"
| "np_mul NInf NInf = PInf"
| "np_mul PInf NInf = NInf"
| "np_mul NInf PInf = NInf"

fun np_div :: "npfloat \<Rightarrow> npfloat \<Rightarrow> npfloat" where
  "np_div (Fin a) (Fin b) =
     (if b \<noteq> 0 then Fin (a / b)
      else if a = 0 then NaN
      else if 0 < a then PInf else NInf)"
| "np_div NaN _ = NaN"
| "np_div _ NaN = NaN"
| "np_div (Fin a) _ = Fin 0"
| "np_div PInf (Fin b) = (if 0 \<le> b then PInf else NInf)"
| "np_div NInf (Fin b) = (if 0 \<le> b then NInf else PInf)"
| "np_div PInf PInf = NaN"
| "np_div PInf NInf = NaN"
| "np_div NInf PInf = NaN"
| "np_div NInf NInf = NaN"

fun np_sqrt :: "npfloat \<Rightarrow> npfloat" where
  "np_sqrt (Fin a) = (if a < 0 then NaN else Fin (sqrt a))"
| "np_sqrt PInf = PInf"
| "np_sqrt _ = NaN"

fun np_le :: "npfloat \<Rightarrow> npfloat \<Rightarrow> bool" where
  "np_le (Fin a) (Fin b) = (a \<le> b)"
| "np_le NaN _ = False"
| "np_le _ NaN = False"
| "np_le NInf _ = True"
| "np_le _ PInf = True"
| "np_le PInf _ = False"
| "np_le (Fin a) NInf = False"


fun np_abs :: "npfloat \<Rightarrow> npfloat" where
  "np_abs (Fin a) = Fin \<bar>a\<bar>"
| "np_abs PInf = PInf"
| "np_abs NInf = PInf"
| "np_abs NaN = NaN"

text \<open>
  Equality of two floats within a tolerance, \<open>abs(v - w) <= tol\<close>: false when either
  is NaN.
\<close>

definition np_close :: "real \<Rightarrow> npfloat \<Rightarrow> npfloat \<Rightarrow> bool" where
  "np_close tol v w = np_le (np_abs (np_sub v w)) (Fin tol)"

section \<open>Association of two categorical series\<close>

text \<open>
  A categorical series is a list of labels, \<open>None\<close> where the label is missing. The
  labels of a series are of one ordered type, so that the cross table can sort them.
\<close>

fun both :: "'a option \<times> 'b option \<Rightarrow> ('a \<times> 'b) option" where
  "both (Some a, Some b) = Some (a, b)"
| "both _ = None"

text \<open>The rows in which both series have a label: \<open>crosstab\<close> drops the others.\<close>

definition observed_pairs :: "'a option list \<Rightarrow> 'b option list \<Rightarrow> ('a \<times> 'b) list" where
  "observed_pairs x y = List.map_filter both (zip x y)"

text \<open>The observed categories of one series: its labels, each once, the missing cells left out.\<close>

definition categories :: "'a option list \<Rightarrow> 'a list" where
  "categories x = remdups (List.map_filter (\<lambda>v. v) x)"

text \<open>
  \<open>pd.crosstab(x, y)\<close>: one row per label seen in \<open>x\<close>, one column per label seen in
  \<open>y\<close>, both sorted, each entry the number of rows with that pair of labels.
\<close>

definition crosstab :: "'a::linorder option list \<Rightarrow> 'b::linorder option list \<Rightarrow> nat list list" where
  "crosstab x y =
     (let ps = observed_pairs x y;
          index = sort (remdups (map fst ps));
          cols = sort (remdups (map snd ps))
      in map (\<lambda>a. map (\<lambda>b. count_list ps (a, b)) cols) index)"

text \<open>The shape of a table given by its rows.\<close>

definition shape :: "'a list list \<Rightarrow> nat \<times> nat" where
  "shape M = (length M, (case M of [] \<Rightarrow> 0 | r # _ \<Rightarrow> length r))"

definition row_sums :: "('a::comm_monoid_add) list list \<Rightarrow> 'a list" where
  "row_sums M = map sum_list M"

definition col_sums :: "('a::comm_monoid_add) list list \<Rightarrow> 'a list" where
  "col_sums M = map (\<lambda>j. sum_list (map (\<lambda>r. r ! j) M)) [0..<snd (shape M)]"

text \<open>
  scipy's \<open>expected_freq\<close>: the product of the two marginal sums of a cell over the
  total.
\<close>

definition expected_freq :: "real list list \<Rightarrow> real list list" where
  "expected_freq M =
     map (\<lambda>ri. map (\<lambda>cj. ri * cj / sum_list (row_sums M)) (col_sums M)) (row_sums M)"

text \<open>
  Yates' correction, as \<open>chi2_contingency\<close> applies it: every observed count moves
  towards its expected count by one half, and by no more than their difference.
\<close>

definition yates :: "real list list \<Rightarrow> real list list \<Rightarrow> real list list" where
  "yates observed expected =
     map2 (map2 (\<lambda>ob ex. ob + min (1 / 2) \<bar>ex - ob\<bar> * sgn (ex - ob))) observed expected"

text \<open>Pearson's statistic (\<open>power_divergence\<close> with its default \<open>lambda_\<close>).\<close>

definition pearson :: "real list list \<Rightarrow> real list list \<Rightarrow> real" where
  "pearson observed expected =
     sum_list (map2 (\<lambda>obs exs. sum_list (map2 (\<lambda>ob ex. (ob - ex)\<^sup>2 / ex) obs exs))
        observed expected)"

text \<open>
  \<open>chi2_contingency(observed)[0]\<close> with scipy's defaults, \<open>correction=True\<close> among
  them: a table without cells and a table with an expected count of zero raise
  ValueError; with no degree of freedom the statistic is 0; with one degree of freedom
  the observed counts are corrected first.
\<close>

definition chi2_contingency :: "nat list list \<Rightarrow> error + real" where
  "chi2_contingency table =
     (let observed = map (map real) table;
          (r, k) = shape observed
      in if r * k = 0 then Inl ValueError
         else
           let expected = expected_freq observed in
           if list_ex (list_ex (\<lambda>e. e = 0)) expected then Inl ValueError
           else
             let dof = int (r * k) - int (r + k) + 2 - 1 in
             if dof = 0 then Inr 0
             else Inr (pearson (if dof = 1 then yates observed expected else observed) expected))"

definition cramers_v :: "'a::linorder option list \<Rightarrow> 'b::linorder option list \<Rightarrow> error + npfloat" where
  "cramers_v x y =
     (let contingency_table = crosstab x y in
      case chi2_contingency contingency_table of
        Inl e \<Rightarrow> Inl e
      | Inr chi2 \<Rightarrow>
          let n = sum_list (col_sums contingency_table);
              (r, k) = shape contingency_table
          in Inr (np_sqrt (np_div (Fin chi2) (Fin (of_int (int n * (int (min r k) - 1)))))))"

subsection \<open>Cramer's V as the specification defines it\<close>

text \<open>
  The contingency table of the observed labels, Pearson's statistic over it without
  any correction, and \<open>sqrt (chi2 / (n * (min r k - 1)))\<close>.
\<close>

definition spec_count :: "('a \<times> 'b) list \<Rightarrow> 'a \<Rightarrow> 'b \<Rightarrow> real" where
  "spec_count ps a b = real (count_list ps (a, b))"

definition spec_expected :: "('a \<times> 'b) list \<Rightarrow> 'a \<Rightarrow> 'b \<Rightarrow> real" where
  "spec_expected ps a b =
     real (length (filter (\<lambda>p. fst p = a) ps)) * real (length (filter (\<lambda>p. snd p = b) ps))
       / real (length ps)"

definition spec_chi2 :: "('a \<times> 'b) list \<Rightarrow> real" where
  "spec_chi2 ps =
     (\<Sum>a \<in> fst ` set ps. \<Sum>b \<in> snd ` set ps.
        (spec_count ps a b - spec_expected ps a b)\<^sup>2 / spec_expected ps a b)"

definition spec_cramers_v :: "'a option list \<Rightarrow> 'b option list \<Rightarrow> real" where
  "spec_cramers_v x y =
     (let ps = observed_pairs x y;
          n = real (length ps);
          r = card (fst ` set ps);
          k = card (snd ` set ps)
      in sqrt (spec_chi2 ps / (n * (real (min r k) - 1))))"

subsection \<open>Tables given by a counting function\<close>

text \<open>
  The cross table lists, for every row label and every column label, the count of
  that pair. The marginal sums, the expected counts and the statistic of such a table
  are written here on the counting function and the two label lists, which is the
  form the proofs work with.
\<close>

definition tab :: "('a \<Rightarrow> 'b \<Rightarrow> 'c) \<Rightarrow> 'a list \<Rightarrow> 'b list \<Rightarrow> 'c list list" where
  "tab f rl cl = map (\<lambda>a. map (\<lambda>b. f a b) cl) rl"

definition tab_row :: "('a \<Rightarrow> 'b \<Rightarrow> 'c::comm_monoid_add) \<Rightarrow> 'b list \<Rightarrow> 'a \<Rightarrow> 'c" where
  "tab_row f cl a = sum_list (map (\<lambda>b. f a b) cl)"

definition tab_col :: "('a \<Rightarrow> 'b \<Rightarrow> 'c::comm_monoid_add) \<Rightarrow> 'a list \<Rightarrow> 'b \<Rightarrow> 'c" where
  "tab_col f rl b = sum_list (map (\<lambda>a. f a b) rl)"

definition tab_total :: "('a \<Rightarrow> 'b \<Rightarrow> 'c::comm_monoid_add) \<Rightarrow> 'a list \<Rightarrow> 'b list \<Rightarrow> 'c" where
  "tab_total f rl cl = sum_list (map (tab_row f cl) rl)"

definition tab_expected :: "('a \<Rightarrow> 'b \<Rightarrow> real) \<Rightarrow> 'a list \<Rightarrow> 'b list \<Rightarrow> 'a \<Rightarrow> 'b \<Rightarrow> real" where
  "tab_expected f rl cl a b = tab_row f cl a * tab_col f rl b / tab_total f rl cl"

definition tab_stat ::
  "(real \<Rightarrow> real \<Rightarrow> real) \<Rightarrow> ('a \<Rightarrow> 'b \<Rightarrow> real) \<Rightarrow> 'a list \<Rightarrow> 'b list \<Rightarrow> real" where
  "tab_stat adj f rl cl =
     sum_list (map (\<lambda>a. sum_list (map (\<lambda>b.
        (adj (f a b) (tab_expected f rl cl a b) - tab_expected f rl cl a b)\<^sup>2
          / tab_expected f rl cl a b) cl)) rl)"

definition yates_cell :: "real \<Rightarrow> real \<Rightarrow> real" where
  "yates_cell ob ex = ob + min (1 / 2) \<bar>ex - ob\<bar> * sgn (ex - ob)"

definition tab_dof :: "'a list \<Rightarrow> 'b list \<Rightarrow> int" where
  "tab_dof rl cl = int (length rl * length cl) - int (length rl + length cl) + 2 - 1"

definition pair_count :: "('a \<times> 'b) list \<Rightarrow> 'a \<Rightarrow> 'b \<Rightarrow> nat" where
  "pair_count ps a b = count_list ps (a, b)"

definition labels :: "'a::linorder list \<Rightarrow> 'a list" where
  "labels xs = sort (remdups xs)"

text \<open>What \<open>chi2_contingency\<close> computes on the cross table of the observed pairs.\<close>

definition crosstab_chi2 :: "('a::linorder \<times> 'b::linorder) list \<Rightarrow> real" where
  "crosstab_chi2 ps =
     (let rl = labels (map fst ps); cl = labels (map snd ps) in
      if tab_dof rl cl = 0 then 0
      else tab_stat (if tab_dof rl cl = 1 then yates_cell else (\<lambda>ob ex. ob))
             (\<lambda>a b. real (pair_count ps a b)) rl cl)"

section \<open>Association of a numeric and several categorical columns\<close>

text \<open>\<open>Series.unique()\<close>: the distinct cells in order of first appearance, NaN among them.\<close>

definition unique :: "'a list \<Rightarrow> 'a list" where
  "unique xs = rev (remdups (rev xs))"

text \<open>\<open>df[col] == category\<close>, cell by cell: a missing cell equals nothing, itself included.\<close>

definition eq_cell :: "cell \<Rightarrow> cell \<Rightarrow> bool" where
  "eq_cell c category = (c \<noteq> NA \<and> category \<noteq> NA \<and> c = category)"

text \<open>\<open>df[df[col] == category][numeric_feature]\<close> for one category.\<close>

definition group_of :: "cell list \<Rightarrow> cell list \<Rightarrow> cell \<Rightarrow> cell list" where
  "group_of cs ns category = map snd (filter (\<lambda>(c, v). eq_cell c category) (zip cs ns))"

text \<open>
  \<open>scipy.stats.f_oneway\<close>: fewer than two samples raise TypeError; an empty sample, or
  samples all of length one, give NaN with a warning. The F test proper is the
  parameter \<open>ftest\<close>.
\<close>

definition f_oneway :: "(cell list list \<Rightarrow> error + npfloat) \<Rightarrow> cell list list \<Rightarrow> error + npfloat" where
  "f_oneway ftest samples =
     (if length samples < 2 then Inl TypeError
      else if list_ex (\<lambda>s. length s = 0) samples then Inr NaN
      else if list_all (\<lambda>s. length s = 1) samples then Inr NaN
      else ftest samples)"

text \<open>
  The groups of one categorical column. The numeric column is read once per category,
  so a frame without it raises KeyError only when the categorical column has a cell.
\<close>

definition groups_of :: "frame \<Rightarrow> string \<Rightarrow> string \<Rightarrow> error + cell list list" where
  "groups_of df numeric_feature col =
     (case getcol df col of
        Inl e \<Rightarrow> Inl e
      | Inr cs \<Rightarrow>
          if unique cs = [] then Inr []
          else (case getcol df numeric_feature of
                  Inl e \<Rightarrow> Inl e
                | Inr ns \<Rightarrow> Inr (map (group_of cs ns) (unique cs))))"

text \<open>The loop over the categorical columns, filling the dictionary \<open>p_values\<close>.\<close>

fun p_values_loop ::
  "(cell list list \<Rightarrow> error + npfloat) \<Rightarrow> frame \<Rightarrow> string \<Rightarrow> string list \<Rightarrow>
     (string \<times> npfloat) list \<Rightarrow> error + (string \<times> npfloat) list" where
  "p_values_loop ftest df numeric_feature [] p_values = Inr p_values"
| "p_values_loop ftest df numeric_feature (col # cols) p_values =
     (case groups_of df numeric_feature col of
        Inl e \<Rightarrow> Inl e
      | Inr groups \<Rightarrow>
          (case f_oneway ftest groups of
             Inl e \<Rightarrow> Inl e
           | Inr p_value \<Rightarrow>
               p_values_loop ftest df numeric_feature cols (AList.update col p_value p_values)))"

definition categorical_and_numeric_correlation ::
  "(cell list list \<Rightarrow> error + npfloat) \<Rightarrow> frame \<Rightarrow> string \<Rightarrow> string list \<Rightarrow>
     error + (string \<times> npfloat) list" where
  "categorical_and_numeric_correlation ftest df numeric_feature categorical_columns =
     p_values_loop ftest df numeric_feature categorical_columns []"

section \<open>Prevalence rates\<close>

text \<open>\<open>Series.mean()\<close> and \<open>Series.sum()\<close> skip missing values; the mean of nothing is NaN.\<close>

definition mean :: "real option list \<Rightarrow> npfloat" where
  "mean xs = (let v = valid xs in if v = [] then NaN else Fin (sum_list v / real (length v)))"

definition sum_col :: "real option list \<Rightarrow> npfloat" where
  "sum_col xs = Fin (sum_list (valid xs))"

text \<open>
  statsmodels' \<open>proportion_confint(count, nobs, alpha, method="wilson")\<close>, with
  \<open>cnt\<close> for its \<open>count\<close>. The critical
  value is \<open>scipy.stats.norm.isf(alpha / 2)\<close>; the inverse survival function of the
  normal distribution is the parameter \<open>norm_isf\<close>. The Wilson bounds are not clipped.
\<close>

definition proportion_confint ::
  "(real \<Rightarrow> real) \<Rightarrow> npfloat \<Rightarrow> npfloat \<Rightarrow> real \<Rightarrow> npfloat \<times> npfloat" where
  "proportion_confint norm_isf cnt nobs alpha =
     (let q = np_div cnt nobs;
          crit = Fin (norm_isf (alpha / 2));
          crit2 = np_mul crit crit;
          denom = np_add (Fin 1) (np_div crit2 nobs);
          center = np_div (np_add q (np_div crit2 (np_mul (Fin 2) nobs))) denom;
          dist = np_mul crit
                   (np_sqrt (np_add (np_div (np_mul q (np_sub (Fin 1) q)) nobs)
                                    (np_div crit2 (np_mul (Fin 4) (np_mul nobs nobs)))));
          dist = np_div dist denom;
          ci_low = np_sub center dist;
          ci_upp = np_add center dist
      in (ci_low, ci_upp))"

record prevalence_row =
  Condition :: string
  Prevalence_Rate :: npfloat
  Lower_Bound :: npfloat
  Upper_Bound :: npfloat

text \<open>The loop over the conditions, appending to the three lists.\<close>

fun prevalence_loop ::
  "(real \<Rightarrow> real) \<Rightarrow> frame \<Rightarrow> string list \<Rightarrow>
     npfloat list \<times> npfloat list \<times> npfloat list \<Rightarrow>
     error + npfloat list \<times> npfloat list \<times> npfloat list" where
  "prevalence_loop norm_isf df [] acc = Inr acc"
| "prevalence_loop norm_isf df (condition # conditions)
     (prevalence_rates, lower_bounds, upper_bounds) =
     (case getcol df condition of
        Inl e \<Rightarrow> Inl e
      | Inr cs \<Rightarrow>
     (case numeric cs of
        Inl e \<Rightarrow> Inl e
      | Inr xs \<Rightarrow>
          let prevalence = mean xs;
              positive_count = sum_col xs;
              all_count = length (rows df);
              (lower, upper) =
                proportion_confint norm_isf positive_count (Fin (real all_count)) 0.05
          in prevalence_loop norm_isf df conditions
               (prevalence_rates @ [prevalence], lower_bounds @ [lower],
                upper_bounds @ [upper])))"

definition count_prevalence_rate ::
  "(real \<Rightarrow> real) \<Rightarrow> frame \<Rightarrow> string list \<Rightarrow> error + prevalence_row list" where
  "count_prevalence_rate norm_isf df conditions =
     (case prevalence_loop norm_isf df conditions ([], [], []) of
        Inl e \<Rightarrow> Inl e
      | Inr (prevalence_rates, lower_bounds, upper_bounds) \<Rightarrow>
          Inr (map (\<lambda>(c, p, l, u).
                      \<lparr>Condition = c, Prevalence_Rate = p, Lower_Bound = l, Upper_Bound = u\<rparr>)
                 (zip conditions (zip prevalence_rates (zip lower_bounds upper_bounds)))))"

subsection \<open>Notions for stating the claims on prevalence rates\<close>


text \<open>The row in which the three figures are NaN.\<close>

definition nan_row :: "string \<Rightarrow> prevalence_row" where
  "nan_row c = \<lparr>Condition = c, Prevalence_Rate = NaN, Lower_Bound = NaN, Upper_Bound = NaN\<rparr>"

text \<open>The row that one pass of the loop computes for a condition whose column is numeric.\<close>

definition condition_row :: "(real \<Rightarrow> real) \<Rightarrow> frame \<Rightarrow> string \<Rightarrow> prevalence_row" where
  "condition_row norm_isf df c =
     (case numeric (map (\<lambda>r. r c) (rows df)) of
        Inl e \<Rightarrow> nan_row c
      | Inr xs \<Rightarrow>
          let (l, u) = proportion_confint norm_isf (sum_col xs) (Fin (real (length (rows df)))) 0.05
          in \<lparr>Condition = c, Prevalence_Rate = mean xs, Lower_Bound = l, Upper_Bound = u\<rparr>)"



subsection \<open>The Wilson interval as the specification writes it\<close>



section \<open>Sample data\<close>

text \<open>A row with one cell, and a frame with one column given by its cells.\<close>

definition cell_row :: "string \<Rightarrow> cell \<Rightarrow> row" where
  "cell_row c v = (\<lambda>k. if k = c then v else NA)"

definition one_column :: "string \<Rightarrow> cell list \<Rightarrow> frame" where
  "one_column c vs = \<lparr>columns = [c], rows = map (cell_row c) vs\<rparr>"

definition sample10 :: frame where
  "sample10 = one_column ''v'' (map Num [1, 2, 3, 4, 5, 6, 7, 8, 9, 100])"

definition sample11 :: frame where
  "sample11 = one_column ''v'' (map Num [1, 2, 3, 4, 5, 6, 7, 8, 9, 100, 200])"



text \<open>
  A stand-in for \<open>norm.isf\<close>: the critical value of the specification, whatever the
  probability.
\<close>

definition isf95 :: "real \<Rightarrow> real" where
  "isf95 p = 1.959964"

text \<open>Frames with a condition column \<open>c\<close>: without rows, with four rows, with 50 ones in 100 rows.\<close>

definition no_rows :: frame where
  "no_rows = one_column ''c'' []"



text \<open>Categorical series with the labels 0, 1 and 2.\<close>

definition col_0011 :: "nat option list" where
  "col_0011 = map Some [0, 0, 1, 1]"

definition col_0101 :: "nat option list" where
  "col_0101 = map Some [0, 1, 0, 1]"

definition col_00 :: "nat option list" where
  "col_00 = map Some [0, 0]"

definition col_01 :: "nat option list" where
  "col_01 = map Some [0, 1]"

definition col_012 :: "nat option list" where
  "col_012 = map Some [0, 1, 2]"

definition col_000 :: "nat option list" where
  "col_000 = map Some [0, 0, 0]"

definition col_01_NA :: "nat option list" where
  "col_01_NA = [Some 0, Some 1, None]"

definition col_001 :: "nat option list" where
  "col_001 = map Some [0, 0, 1]"

text \<open>
  Frames with a categorical column \<open>g\<close> and a numeric column \<open>v\<close>: one with a single
  label, one with a label and a missing cell. The stand-in for the F test gives the
  p-value 1.
\<close>

definition pair_row :: "cell \<Rightarrow> cell \<Rightarrow> row" where
  "pair_row a b = (\<lambda>k. if k = ''g'' then a else if k = ''v'' then b else NA)"

definition two_columns :: "(cell \<times> cell) list \<Rightarrow> frame" where
  "two_columns vs = \<lparr>columns = [''g'', ''v''], rows = map (\<lambda>(a, b). pair_row a b) vs\<rparr>"

definition ftest1 :: "cell list list \<Rightarrow> error + npfloat" where
  "ftest1 samples = Inr (Fin 1)"

definition one_label :: frame where
  "one_label = two_columns [(Str ''a'', Num 1), (Str ''a'', Num 2)]"

definition label_and_missing :: frame where
  "label_and_missing = two_columns [(Str ''a'', Num 1), (NA, Num 2)]"

section \<open>Outlier detection: proofs\<close>

subsection \<open>Reading a column of floats\<close>

lemma floats_Inr:
  "floats cs = Inr xs \<Longrightarrow> xs = map (\<lambda>c. case c of Num x \<Rightarrow> Some x | _ \<Rightarrow> None) cs"
proof (induction cs arbitrary: xs)
  case Nil then show ?case by simp
next
  case (Cons c cs)
  then show ?case by (cases c) (auto split: sum.splits)
qed

lemma floats_cells: "floats cs = Inr xs \<Longrightarrow> c \<in> set cs \<Longrightarrow> c = NA \<or> (\<exists>x. c = Num x)"
proof (induction cs arbitrary: xs)
  case Nil then show ?case by simp
next
  case (Cons d cs)
  then show ?case by (cases d) (auto split: sum.splits)
qed

subsection \<open>The quantile of pandas and the quartile of the specification\<close>

lemma quantile_spec:
  assumes "valid xs \<noteq> []" "0 \<le> q" "q \<le> 1" and l0: "\<forall>a b. lerp ar a b 0 = a"
  shows "quantile ar xs q = Inr (Some (spec_quartile ar (sort (valid xs)) q))"
proof -
  define v where "v = sort (valid xs)"
  define m where "m = length v"
  have m: "0 < m" using assms(1) by (simp add: m_def v_def)
  define h where "h = real (m - 1) * q"
  have h0: "0 \<le> h" using assms by (simp add: h_def)
  have hm: "h \<le> real (m - 1)" using assms by (simp add: h_def mult_left_le)
  have fl: "real (nat \<lfloor>h\<rfloor>) = of_int \<lfloor>h\<rfloor>" using h0 by simp
  have "lerp ar (v ! nat \<lfloor>h\<rfloor>) (v ! min (nat \<lfloor>h\<rfloor> + 1) (m - 1)) (h - real (nat \<lfloor>h\<rfloor>))
      = lerp ar (v ! nat \<lfloor>h\<rfloor>) (v ! nat \<lceil>h\<rceil>) (h - of_int \<lfloor>h\<rfloor>)"
  proof (cases "h = of_int \<lfloor>h\<rfloor>")
    case True
    then have "h - of_int \<lfloor>h\<rfloor> = 0" by simp
    then show ?thesis unfolding fl using l0 by simp
  next
    case False
    then have c: "\<lceil>h\<rceil> = \<lfloor>h\<rfloor> + 1" by (metis ceiling_altdef)
    have "of_int \<lfloor>h\<rfloor> \<le> h" by (rule of_int_floor_le)
    with False have "of_int \<lfloor>h\<rfloor> < h" by linarith
    then have "of_int \<lfloor>h\<rfloor> < real (m - 1)" using hm by linarith
    then have "\<lfloor>h\<rfloor> < int (m - 1)" by linarith
    then have "nat \<lfloor>h\<rfloor> + 1 \<le> m - 1" using h0 by linarith
    moreover have "nat \<lceil>h\<rceil> = nat \<lfloor>h\<rfloor> + 1" using c h0 by (simp add: nat_add_distrib)
    ultimately show ?thesis using fl by (simp add: min_def)
  qed
  then show ?thesis
    using assms(1,2,3) m unfolding quantile_def spec_quartile_def Let_def v_def[symmetric] m_def[symmetric] h_def[symmetric]
    by (simp add: h_def mult.commute)
qed



subsection \<open>What \<open>find_outliers\<close> returns\<close>

lemma find_outliers_some:
  assumes "py_name col" and "col \<in> set (columns df)"
    and "floats (map (\<lambda>r. r col) (rows df)) = Inr xs"
    and "valid xs \<noteq> []" and "\<forall>a b. lerp ar a b 0 = a"
  shows "find_outliers ar df col limit =
     Inr (df\<lparr>rows := tail limit (sort_values col
        (query_outside col (spec_lower ar (sort (valid xs))) (spec_upper ar (sort (valid xs)))
           (rows df)))\<rparr>)"
proof -
  have q1: "quantile ar xs (1 / 4) = Inr (Some (spec_quartile ar (sort (valid xs)) (1 / 4)))"
    using assms(4) by (intro quantile_spec assms(5)) simp_all
  have q3: "quantile ar xs (3 / 4) = Inr (Some (spec_quartile ar (sort (valid xs)) (3 / 4)))"
    using assms(4) by (intro quantile_spec assms(5)) simp_all
  show ?thesis
    using assms(1,2,3)
    by (simp add: find_outliers_def getcol_def q1 q3 spec_lower_def spec_upper_def Let_def)
qed





lemma query_outside_no_NA: "r \<in> set (query_outside col lo up rs) \<Longrightarrow> \<exists>x. r col = Num x"
  by (cases "r col") (auto simp: query_outside_def)

lemma sort_values_query:
  "sort_values col (query_outside col lo up rs) =
     sort_key (\<lambda>r. num_of (r col)) (query_outside col lo up rs)"
proof -
  have "filter (\<lambda>r. r col = NA) (query_outside col lo up rs) = []"
    by (auto simp: filter_empty_conv dest: query_outside_no_NA)
  moreover have "filter (\<lambda>r. r col \<noteq> NA) (query_outside col lo up rs) = query_outside col lo up rs"
    by (auto simp: filter_id_conv dest: query_outside_no_NA)
  ultimately show ?thesis by (simp add: sort_values_def)
qed

lemma outside_iff: "outside lo up c \<longleftrightarrow> (\<exists>x. c = Num x \<and> (x < lo \<or> up < x))"
  by (cases c) auto

lemma tail_nonneg: "0 \<le> n \<Longrightarrow> tail n xs = drop (length xs - nat n) xs"
  by (auto simp: tail_def)

lemma tail_drop: "\<exists>j. tail n xs = drop j xs"
proof (cases "n = 0")
  case True
  then have "tail n xs = drop (length xs) xs" by (simp add: tail_def)
  then show ?thesis ..
next
  case False
  show ?thesis
  proof (cases "0 < n")
    case True
    then have "tail n xs = drop (length xs - nat n) xs" by (simp add: tail_def)
    then show ?thesis ..
  next
    case False
    with \<open>n \<noteq> 0\<close> have "tail n xs = drop (nat (- n)) xs" by (simp add: tail_def)
    then show ?thesis ..
  qed
qed

subsection \<open>Frames with one column\<close>

lemma py_name_v: "py_name ''v''"
  by (simp add: letters_def digits_def reserved_def)

lemma exact_lerp0: "\<forall>a b. lerp exact_arith a b 0 = a"
  by (simp add: exact_arith_def)

lemma one_column_columns: "c \<in> set (columns (one_column c vs))"
  by (simp add: one_column_def)

lemma one_column_cells: "map (\<lambda>r. r c) (rows (one_column c vs)) = vs"
  by (simp add: one_column_def cell_row_def comp_def)

lemma floats_Num: "floats (map Num xs) = Inr (map Some xs)"
  by (induction xs) auto

lemma valid_Some: "valid (map Some xs) = xs"
  by (simp add: valid_def comp_def filter_map)

lemma query_outside_one_column:
  "query_outside c lo up (rows (one_column c vs)) = map (cell_row c) (filter (outside lo up) vs)"
  by (simp add: query_outside_def one_column_def filter_map comp_def cell_row_def)

lemma sort_key_cell_row:
  "sorted xs \<Longrightarrow> sort_key (\<lambda>r. num_of (r c)) (map (cell_row c) (map Num xs)) = map (cell_row c) (map Num xs)"
  by (rule sort_key_id_if_sorted) (simp add: comp_def cell_row_def)

lemma find_outliers_one_column:
  assumes "xs \<noteq> []" and "sorted xs" and "py_name c" and "\<forall>a b. lerp ar a b 0 = a"
  shows "find_outliers ar (one_column c (map Num xs)) c limit =
    Inr ((one_column c (map Num xs))\<lparr>rows := tail limit (map (cell_row c) (map Num
       (filter (\<lambda>x. x < spec_lower ar xs \<or> spec_upper ar xs < x) xs)))\<rparr>)"
proof -
  have s: "sort (valid (map Some xs)) = xs"
    using assms(2) by (simp add: valid_Some sorted_sort_id)
  have f: "filter (outside lo up) (map Num xs) = map Num (filter (\<lambda>x. x < lo \<or> up < x) xs)" for lo up
    by (simp add: filter_map comp_def)
  have "sorted (filter (\<lambda>x. x < spec_lower ar xs \<or> spec_upper ar xs < x) xs)"
    using assms(2) sorted_filter [of "\<lambda>x. x" xs] by simp
  then have k: "sort_key (\<lambda>r. num_of (r c)) (map (cell_row c) (map Num (filter (\<lambda>x. x < spec_lower ar xs \<or> spec_upper ar xs < x) xs)))
      = map (cell_row c) (map Num (filter (\<lambda>x. x < spec_lower ar xs \<or> spec_upper ar xs < x) xs))"
    by (rule sort_key_cell_row)
  have "find_outliers ar (one_column c (map Num xs)) c limit =
     Inr ((one_column c (map Num xs))\<lparr>rows := tail limit (sort_values c
        (query_outside c (spec_lower ar (sort (valid (map Some xs)))) (spec_upper ar (sort (valid (map Some xs))))
           (rows (one_column c (map Num xs)))))\<rparr>)"
    by (rule find_outliers_some [OF assms(3) one_column_columns _ _ assms(4)])
       (simp_all add: one_column_cells floats_Num valid_Some assms(1))
  then show ?thesis
    unfolding s sort_values_query unfolding query_outside_one_column f k .
qed

lemma q10: "spec_quartile exact_arith [1, 2, 3, 4, 5, 6, 7, 8, 9, 100] (1 / 4) = 3.25"
  "spec_quartile exact_arith [1, 2, 3, 4, 5, 6, 7, 8, 9, 100] (3 / 4) = 7.75"
  by (simp_all add: spec_quartile_def exact_arith_def)

lemma b10: "spec_lower exact_arith [1, 2, 3, 4, 5, 6, 7, 8, 9, 100] = -3.5"
  "spec_upper exact_arith [1, 2, 3, 4, 5, 6, 7, 8, 9, 100] = 14.5"
  unfolding spec_lower_def spec_upper_def q10 by (simp_all add: exact_arith_def)

lemma fo10:
  "find_outliers exact_arith sample10 ''v'' 5 = Inr (sample10\<lparr>rows := [cell_row ''v'' (Num 100)]\<rparr>)"
proof -
  have "find_outliers exact_arith sample10 ''v'' 5 = Inr (sample10\<lparr>rows := tail 5 (map (cell_row ''v'') (map Num
       (filter (\<lambda>x. x < spec_lower exact_arith [1, 2, 3, 4, 5, 6, 7, 8, 9, 100] \<or> spec_upper exact_arith [1, 2, 3, 4, 5, 6, 7, 8, 9, 100] < x) [1, 2, 3, 4, 5, 6, 7, 8, 9, 100])))\<rparr>)"
    unfolding sample10_def
    by (rule find_outliers_one_column [OF _ _ py_name_v exact_lerp0]) simp_all
  then show ?thesis unfolding b10 by (simp add: tail_def)
qed

subsection \<open>The claims on \<open>find_outliers\<close>\<close>

lemma find_outliers_InrD:
  assumes "find_outliers ar df col limit = Inr res"
  shows "\<exists>lo up. res = df\<lparr>rows := tail limit (sort_values col (query_outside col lo up (rows df)))\<rparr>"
  using assms unfolding find_outliers_def Let_def
  by (auto split: sum.splits option.splits if_splits)

lemma sorted_sort_values_query:
  "sorted (map (\<lambda>r. num_of (r col)) (sort_values col (query_outside col lo up rs)))"
  unfolding sort_values_query by (rule sorted_sort_key)

lemma mset_sort_values_query:
  "mset (sort_values col (query_outside col lo up rs)) =
     mset (filter (\<lambda>r. \<exists>x. r col = Num x \<and> (x < lo \<or> up < x)) rs)"
  unfolding sort_values_query by (simp add: query_outside_def outside_iff)





text \<open>
  Claim C10, amended in its bound. Whatever the limit and the rounding, the rows of
  the frame returned are rows of the input (with their multiplicity), they are in
  ascending order of the column, and the cell of each in the column is a number, so
  never missing. When the limit is not negative there are at most \<open>limit\<close> of them.
\<close>

theorem find_outliers_result_rows:
  assumes "find_outliers ar df col limit = Inr res"
  shows "(0 \<le> limit \<longrightarrow> length (rows res) \<le> nat limit) \<and>
         mset (rows res) \<subseteq># mset (rows df) \<and>
         sorted (map (\<lambda>r. num_of (r col)) (rows res)) \<and>
         (\<forall>r \<in> set (rows res). \<exists>x. r col = Num x)"
proof -
  obtain lo up where res: "res = df\<lparr>rows := tail limit (sort_values col (query_outside col lo up (rows df)))\<rparr>"
    using find_outliers_InrD [OF assms] by blast
  define sel where "sel = sort_values col (query_outside col lo up (rows df))"
  obtain j where r: "rows res = drop j sel"
    using tail_drop [of limit sel] by (auto simp: res sel_def)
  have 1: "length (rows res) \<le> nat limit" if "0 \<le> limit"
    using that by (simp add: res tail_nonneg)
  have "mset sel \<subseteq># mset (rows df)"
    unfolding sel_def mset_sort_values_query by simp
  moreover have "mset (drop j sel) \<subseteq># mset sel"
    by (metis append_take_drop_id mset_append mset_subset_eq_add_right)
  ultimately have 2: "mset (rows res) \<subseteq># mset (rows df)"
    unfolding r by (rule subset_mset.order_trans [rotated])
  have "sorted (map (\<lambda>r. num_of (r col)) sel)"
    unfolding sel_def by (rule sorted_sort_values_query)
  then have 3: "sorted (map (\<lambda>r. num_of (r col)) (rows res))"
    unfolding r drop_map [symmetric] by (rule sorted_wrt_drop)
  have "\<exists>x. r col = Num x" if "r \<in> set sel" for r
  proof -
    from that have "r \<in># mset sel" by simp
    then have "r \<in> set (query_outside col lo up (rows df))"
      unfolding sel_def sort_values_query by simp
    then show ?thesis by (rule query_outside_no_NA)
  qed
  then have 4: "\<forall>r \<in> set (rows res). \<exists>x. r col = Num x"
    unfolding r by (meson in_set_dropD)
  from 1 2 3 4 show ?thesis by blast
qed

text \<open>The ten sample values with the limit 5 give one row, which has all four properties.\<close>

theorem find_outliers_result_rows_witness:
  "length [cell_row ''v'' (Num 100)] \<le> nat 5 \<and>
   mset [cell_row ''v'' (Num 100)] \<subseteq># mset (rows sample10) \<and>
   sorted (map (\<lambda>r. num_of (r ''v'')) [cell_row ''v'' (Num 100)]) \<and>
   (\<exists>x. cell_row ''v'' (Num 100) ''v'' = Num x)"
  using find_outliers_result_rows [OF fo10] by simp

lemma b11: "spec_lower exact_arith [1, 2, 3, 4, 5, 6, 7, 8, 9, 100, 200] = -4"
  "spec_upper exact_arith [1, 2, 3, 4, 5, 6, 7, 8, 9, 100, 200] = 16"
  unfolding spec_lower_def spec_upper_def by (simp_all add: spec_quartile_def exact_arith_def)

text \<open>
  Claim C10 as stated, for every limit, fails for a negative one: \<open>tail(-1)\<close> drops
  the first row and keeps the rest, so of the two outliers 100 and 200 one row is
  returned, which is more than \<open>-1\<close> rows.
\<close>

theorem find_outliers_negative_limit:
  "find_outliers exact_arith sample11 ''v'' (- 1) = Inr (sample11\<lparr>rows := [cell_row ''v'' (Num 200)]\<rparr>) \<and>
   \<not> int (length (rows (sample11\<lparr>rows := [cell_row ''v'' (Num 200)]\<rparr>))) \<le> - 1"
proof -
  have "find_outliers exact_arith sample11 ''v'' (- 1) = Inr (sample11\<lparr>rows := tail (- 1) (map (cell_row ''v'') (map Num
       (filter (\<lambda>x. x < spec_lower exact_arith [1, 2, 3, 4, 5, 6, 7, 8, 9, 100, 200] \<or> spec_upper exact_arith [1, 2, 3, 4, 5, 6, 7, 8, 9, 100, 200] < x) [1, 2, 3, 4, 5, 6, 7, 8, 9, 100, 200])))\<rparr>)"
    unfolding sample11_def
    by (rule find_outliers_one_column [OF _ _ py_name_v exact_lerp0]) simp_all
  then show ?thesis unfolding b11 by (simp add: tail_def)
qed





section \<open>Prevalence rates: proofs\<close>

subsection \<open>The loop\<close>

lemma prevalence_loop_ok:
  assumes "\<And>c. c \<in> set conds \<Longrightarrow> c \<in> set (columns df) \<and> (\<exists>xs. numeric (map (\<lambda>r. r c) (rows df)) = Inr xs)"
  shows "prevalence_loop isf df conds (ps, ls, us) =
     Inr (ps @ map (\<lambda>c. Prevalence_Rate (condition_row isf df c)) conds,
          ls @ map (\<lambda>c. Lower_Bound (condition_row isf df c)) conds,
          us @ map (\<lambda>c. Upper_Bound (condition_row isf df c)) conds)"
  using assms
proof (induction conds arbitrary: ps ls us)
  case Nil
  then show ?case by simp
next
  case (Cons c conds)
  from Cons.prems [of c] obtain xs where c: "c \<in> set (columns df)"
    and xs: "numeric (map (\<lambda>r. r c) (rows df)) = Inr xs" by auto
  obtain l u where lu: "proportion_confint isf (sum_col xs) (Fin (real (length (rows df)))) 0.05 = (l, u)"
    by (cases "proportion_confint isf (sum_col xs) (Fin (real (length (rows df)))) 0.05")
  have row: "condition_row isf df c = \<lparr>Condition = c, Prevalence_Rate = mean xs, Lower_Bound = l, Upper_Bound = u\<rparr>"
    using lu by (simp add: condition_row_def xs)
  have "prevalence_loop isf df (c # conds) (ps, ls, us) =
        prevalence_loop isf df conds (ps @ [mean xs], ls @ [l], us @ [u])"
    using lu by (simp add: getcol_def c xs)
  also have "\<dots> = Inr ((ps @ [mean xs]) @ map (\<lambda>c. Prevalence_Rate (condition_row isf df c)) conds,
          (ls @ [l]) @ map (\<lambda>c. Lower_Bound (condition_row isf df c)) conds,
          (us @ [u]) @ map (\<lambda>c. Upper_Bound (condition_row isf df c)) conds)"
    by (rule Cons.IH) (use Cons.prems in auto)
  finally show ?case by (simp add: row)
qed

lemma zip_maps_rows:
  "map (\<lambda>(c, p, l, u). \<lparr>Condition = c, Prevalence_Rate = p, Lower_Bound = l, Upper_Bound = u\<rparr>)
     (zip conds (zip (map P conds) (zip (map L conds) (map U conds)))) =
   map (\<lambda>c. \<lparr>Condition = c, Prevalence_Rate = P c, Lower_Bound = L c, Upper_Bound = U c\<rparr>) conds"
  by (induction conds) auto

lemma condition_row_Condition:
  "Condition (condition_row isf df c) = c"
  by (auto simp: condition_row_def nan_row_def Let_def split: sum.splits prod.splits)

lemma count_prevalence_rate_ok:
  assumes "\<And>c. c \<in> set conds \<Longrightarrow> c \<in> set (columns df) \<and> (\<exists>xs. numeric (map (\<lambda>r. r c) (rows df)) = Inr xs)"
  shows "count_prevalence_rate isf df conds = Inr (map (condition_row isf df) conds)"
proof -
  have e: "map (\<lambda>c. \<lparr>Condition = c, Prevalence_Rate = Prevalence_Rate (condition_row isf df c),
           Lower_Bound = Lower_Bound (condition_row isf df c),
           Upper_Bound = Upper_Bound (condition_row isf df c)\<rparr>) conds = map (condition_row isf df) conds"
    by (rule map_cong) (simp_all add: condition_row_Condition [symmetric])
  have "prevalence_loop isf df conds ([], [], []) =
     Inr (map (\<lambda>c. Prevalence_Rate (condition_row isf df c)) conds,
          map (\<lambda>c. Lower_Bound (condition_row isf df c)) conds,
          map (\<lambda>c. Upper_Bound (condition_row isf df c)) conds)"
    using prevalence_loop_ok [of conds df isf "[]" "[]" "[]"] assms by simp
  then show ?thesis
    unfolding count_prevalence_rate_def by (simp add: zip_maps_rows e)
qed

subsection \<open>The Wilson interval over the reals\<close>



lemma proportion_confint_zero:
  "proportion_confint isf (Fin 0) (Fin 0) a = (NaN, NaN)"
  by (simp add: proportion_confint_def Let_def np_sub_def)



subsection \<open>Binary columns\<close>






lemma condition_row_no_rows:
  assumes "rows df = []"
  shows "condition_row isf df c = nan_row c"
  using assms
  by (simp add: condition_row_def sum_col_def valid_def mean_def proportion_confint_zero nan_row_def)




subsection \<open>The claims on \<open>count_prevalence_rate\<close>\<close>


lemma no_rows_facts: "rows no_rows = []" "columns no_rows = [''c'']"
  by (simp_all add: no_rows_def one_column_def)






lemma cpr_no_rows:
  "count_prevalence_rate isf no_rows [''c''] = Inr [nan_row ''c'']"
proof -
  have "count_prevalence_rate isf no_rows [''c''] = Inr (map (condition_row isf no_rows) [''c''])"
    by (rule count_prevalence_rate_ok) (simp add: no_rows_facts)
  then show ?thesis by (simp add: condition_row_no_rows no_rows_facts)
qed


text \<open>
  Claim C6 as stated fails: on a frame with zero rows \<open>count_prevalence_rate\<close> raises
  nothing and returns a table.
\<close>

theorem count_prevalence_rate_empty_returns:
  "length (rows no_rows) = 0 \<and>
   count_prevalence_rate isf95 no_rows [''c''] =
     Inr [\<lparr>Condition = ''c'', Prevalence_Rate = NaN, Lower_Bound = NaN, Upper_Bound = NaN\<rparr>]"
  using cpr_no_rows [of isf95] by (simp add: no_rows_facts nan_row_def)

text \<open>
  Claim C6, amended. On a frame with zero rows that has the condition columns,
  \<open>count_prevalence_rate\<close> returns a table with one row per condition, whose
  prevalence and bounds are all NaN.
\<close>

theorem count_prevalence_rate_no_rows:
  assumes "rows df = []" and "set conditions \<subseteq> set (columns df)"
  shows "count_prevalence_rate norm_isf df conditions = Inr (map nan_row conditions)"
proof -
  have ok: "c \<in> set (columns df) \<and> (\<exists>xs. numeric (map (\<lambda>r. r c) (rows df)) = Inr xs)"
    if "c \<in> set conditions" for c
    using that assms by auto
  have "count_prevalence_rate norm_isf df conditions = Inr (map (condition_row norm_isf df) conditions)"
    using ok by (rule count_prevalence_rate_ok)
  then show ?thesis by (simp add: condition_row_no_rows [OF assms(1)])
qed

text \<open>The frame without rows, asked twice for its column.\<close>

theorem count_prevalence_rate_no_rows_witness:
  "count_prevalence_rate isf95 no_rows [''c'', ''c''] = Inr [nan_row ''c'', nan_row ''c'']"
proof -
  have "set [''c'', ''c''] \<subseteq> set (columns no_rows)" by (simp add: no_rows_facts)
  then show ?thesis
    using count_prevalence_rate_no_rows [of no_rows "[''c'', ''c'']" isf95] no_rows_facts(1)
    by simp
qed







section \<open>Association of two categorical series: proofs\<close>

subsection \<open>Tables given by a counting function\<close>

lemma sum_list_swap:
  fixes f :: "'a \<Rightarrow> 'b \<Rightarrow> 'c::comm_monoid_add"
  shows "sum_list (map (\<lambda>a. sum_list (map (\<lambda>b. f a b) ys)) xs) =
         sum_list (map (\<lambda>b. sum_list (map (\<lambda>a. f a b) xs)) ys)"
proof (induction xs)
  case Nil
  then show ?case by simp
next
  case (Cons x xs)
  then show ?case by (simp add: sum_list_addf)
qed

lemma shape_tab: "rl \<noteq> [] \<Longrightarrow> shape (tab f rl cl) = (length rl, length cl)"
  by (cases rl) (simp_all add: shape_def tab_def)

lemma row_sums_tab: "row_sums (tab f rl cl) = map (tab_row f cl) rl"
  by (simp add: row_sums_def tab_def tab_row_def comp_def)

lemma col_sums_tab:
  assumes "rl \<noteq> []"
  shows "col_sums (tab f rl cl) = map (tab_col f rl) cl"
proof -
  have "map (\<lambda>j. sum_list (map (\<lambda>r. r ! j) (tab f rl cl))) [0..<length cl] =
        map (\<lambda>j. tab_col f rl (cl ! j)) [0..<length cl]"
    by (rule map_cong) (simp_all add: tab_def tab_col_def comp_def)
  also have "\<dots> = map (tab_col f rl) (map (\<lambda>j. cl ! j) [0..<length cl])"
    by (simp add: comp_def)
  also have "map (\<lambda>j. cl ! j) [0..<length cl] = cl" by (rule map_nth)
  finally show ?thesis by (simp add: col_sums_def shape_tab [OF assms])
qed

lemma total_tab: "sum_list (row_sums (tab f rl cl)) = tab_total f rl cl"
  by (simp add: row_sums_tab tab_total_def)

lemma total_tab_cols: "sum_list (map (tab_col f rl) cl) = tab_total f rl cl"
  unfolding tab_total_def tab_row_def tab_col_def by (rule sum_list_swap)

lemma expected_freq_tab:
  assumes "rl \<noteq> []"
  shows "expected_freq (tab f rl cl) = tab (tab_expected f rl cl) rl cl"
  unfolding expected_freq_def col_sums_tab [OF assms] row_sums_tab
  by (simp add: tab_def tab_expected_def tab_total_def comp_def)

lemma map2_tab: "map2 (map2 h) (tab f rl cl) (tab g rl cl) = tab (\<lambda>a b. h (f a b) (g a b)) rl cl"
  by (simp add: tab_def map2_map_map)

lemma yates_tab: "yates (tab f rl cl) (tab g rl cl) = tab (\<lambda>a b. yates_cell (f a b) (g a b)) rl cl"
  unfolding yates_def yates_cell_def [abs_def, symmetric] by (rule map2_tab)

lemma pearson_tab:
  "pearson (tab f rl cl) (tab g rl cl) =
     sum_list (map (\<lambda>a. sum_list (map (\<lambda>b. (f a b - g a b)\<^sup>2 / g a b) cl)) rl)"
  by (simp add: pearson_def tab_def map2_map_map)

lemma list_ex_tab:
  "list_ex (list_ex P) (tab f rl cl) \<longleftrightarrow> (\<exists>a \<in> set rl. \<exists>b \<in> set cl. P (f a b))"
  by (auto simp: tab_def list_ex_iff)

lemma map_real_tab: "map (map real) (tab f rl cl) = tab (\<lambda>a b. real (f a b)) rl cl"
  by (simp add: tab_def comp_def)

lemma chi2_contingency_tab:
  fixes f :: "'a \<Rightarrow> 'b \<Rightarrow> nat"
  assumes "rl \<noteq> []" and "cl \<noteq> []"
  shows "chi2_contingency (tab f rl cl) =
    (if \<exists>a \<in> set rl. \<exists>b \<in> set cl. tab_expected (\<lambda>a b. real (f a b)) rl cl a b = 0 then Inl ValueError
     else if tab_dof rl cl = 0 then Inr 0
     else Inr (tab_stat (if tab_dof rl cl = 1 then yates_cell else (\<lambda>ob ex. ob))
                 (\<lambda>a b. real (f a b)) rl cl))"
proof -
  define g where "g = (\<lambda>a b. real (f a b))"
  have s: "shape (tab g rl cl) = (length rl, length cl)" using assms(1) by (rule shape_tab)
  have n: "length rl * length cl \<noteq> 0" using assms(1,2) by simp
  have e: "expected_freq (tab g rl cl) = tab (tab_expected g rl cl) rl cl"
    using assms(1) by (rule expected_freq_tab)
  have p1: "pearson (yates (tab g rl cl) (tab (tab_expected g rl cl) rl cl)) (tab (tab_expected g rl cl) rl cl)
      = tab_stat yates_cell g rl cl"
    unfolding yates_tab pearson_tab tab_stat_def ..
  have p2: "pearson (tab g rl cl) (tab (tab_expected g rl cl) rl cl) = tab_stat (\<lambda>ob ex. ob) g rl cl"
    unfolding pearson_tab tab_stat_def ..
  show ?thesis
    unfolding chi2_contingency_def map_real_tab g_def [symmetric] Let_def s prod.case e list_ex_tab
      tab_dof_def [symmetric]
    using n p1 p2 by simp
qed

subsection \<open>Exchanging rows and columns\<close>

lemma crosstab_tab:
  "crosstab x y =
     tab (pair_count (observed_pairs x y)) (labels (map fst (observed_pairs x y)))
       (labels (map snd (observed_pairs x y)))"
  by (simp add: crosstab_def tab_def pair_count_def labels_def Let_def)

lemma set_labels: "set (labels xs) = set xs"
  by (simp add: labels_def)

lemma labels_Nil: "labels xs = [] \<longleftrightarrow> xs = []"
  by (metis set_labels set_empty)

lemma tab_expected_swap:
  fixes g :: "'a \<Rightarrow> 'b \<Rightarrow> real"
  shows "tab_expected (\<lambda>b a. g a b) cl rl b a = tab_expected g rl cl a b"
proof -
  have "tab_total (\<lambda>b a. g a b) cl rl = tab_total g rl cl"
    unfolding tab_total_def tab_row_def by (rule sum_list_swap)
  then show ?thesis by (simp add: tab_expected_def tab_row_def tab_col_def)
qed

lemma tab_stat_swap:
  fixes g :: "'a \<Rightarrow> 'b \<Rightarrow> real"
  shows "tab_stat adj (\<lambda>b a. g a b) cl rl = tab_stat adj g rl cl"
proof -
  define E where "E = tab_expected g rl cl"
  define E' where "E' = tab_expected (\<lambda>b a. g a b) cl rl"
  have e: "E' b a = E a b" for a b
    unfolding E_def E'_def by (rule tab_expected_swap)
  have "tab_stat adj (\<lambda>b a. g a b) cl rl =
      sum_list (map (\<lambda>b. sum_list (map (\<lambda>a. (adj (g a b) (E' b a) - E' b a)\<^sup>2 / E' b a) rl)) cl)"
    unfolding tab_stat_def E'_def ..
  also have "\<dots> = sum_list (map (\<lambda>b. sum_list (map (\<lambda>a. (adj (g a b) (E a b) - E a b)\<^sup>2 / E a b) rl)) cl)"
    unfolding e ..
  also have "\<dots> = sum_list (map (\<lambda>a. sum_list (map (\<lambda>b. (adj (g a b) (E a b) - E a b)\<^sup>2 / E a b) cl)) rl)"
    by (rule sum_list_swap)
  also have "\<dots> = tab_stat adj g rl cl"
    unfolding tab_stat_def E_def ..
  finally show ?thesis .
qed

lemma tab_total_swap:
  fixes f :: "'a \<Rightarrow> 'b \<Rightarrow> 'c::comm_monoid_add"
  shows "tab_total (\<lambda>b a. f a b) cl rl = tab_total f rl cl"
  unfolding tab_total_def tab_row_def by (rule sum_list_swap)

lemma tab_dof_swap: "tab_dof cl rl = tab_dof rl cl"
  by (simp add: tab_dof_def mult.commute add.commute)

lemma both_swap: "both (b, a) = map_option prod.swap (both (a, b))"
  by (cases a; cases b) simp_all

lemma observed_pairs_swap: "observed_pairs y x = map prod.swap (observed_pairs x y)"
proof (induction x arbitrary: y)
  case Nil
  then show ?case by (simp add: observed_pairs_def List.map_filter_simps)
next
  case (Cons a x)
  show ?case
  proof (cases y)
    case Nil
    then show ?thesis by (simp add: observed_pairs_def List.map_filter_simps)
  next
    case (Cons b y')
    have "observed_pairs y' x = map prod.swap (observed_pairs x y')" by (rule Cons.IH)
    then show ?thesis
      unfolding Cons observed_pairs_def
      by (cases a; cases b) (simp_all add: List.map_filter_simps)
  qed
qed

lemma pair_count_swap: "pair_count (map prod.swap ps) b a = pair_count ps a b"
  unfolding pair_count_def by (induction ps) auto

lemma tab_real_row: "tab_row (\<lambda>a b. real (f a b)) cl a = real (tab_row f cl a)"
  unfolding tab_row_def by (induction cl) simp_all

lemma tab_real_col: "tab_col (\<lambda>a b. real (f a b)) rl b = real (tab_col f rl b)"
  unfolding tab_col_def by (induction rl) simp_all

lemma tab_real_total: "tab_total (\<lambda>a b. real (f a b)) rl cl = real (tab_total f rl cl)"
  unfolding tab_total_def by (induction rl) (simp_all add: tab_real_row)

subsection \<open>The marginal sums of a cross table\<close>

lemma distinct_labels: "distinct (labels xs)"
  by (simp add: labels_def)

lemma sum_pair_count_snd:
  assumes "finite B" and "snd ` set ps \<subseteq> B"
  shows "(\<Sum>b \<in> B. pair_count ps a b) = length (filter (\<lambda>p. fst p = a) ps)"
  using assms(2)
proof (induction ps)
  case Nil
  then show ?case by (simp add: pair_count_def)
next
  case (Cons p ps)
  obtain a' b' where p: "p = (a', b')" by (cases p)
  have b': "b' \<in> B" using Cons.prems p by simp
  have "(\<Sum>b \<in> B. pair_count (p # ps) a b) =
        (\<Sum>b \<in> B. pair_count ps a b + (if a' = a \<and> b' = b then 1 else 0))"
    by (rule sum.cong) (auto simp: pair_count_def p)
  also have "\<dots> = (\<Sum>b \<in> B. pair_count ps a b) + (\<Sum>b \<in> B. if a' = a \<and> b' = b then 1 else 0)"
    by (rule sum.distrib)
  also have "(\<Sum>b \<in> B. if a' = a \<and> b' = b then 1 else 0) = (if a' = a then 1 else (0::nat))"
    using assms(1) b' by (cases "a' = a") (simp_all add: sum.delta')
  also have "(\<Sum>b \<in> B. pair_count ps a b) = length (filter (\<lambda>p. fst p = a) ps)"
    using Cons by simp
  finally show ?case by (simp add: p)
qed

lemma sum_pair_count_fst:
  assumes "finite A" and "fst ` set ps \<subseteq> A"
  shows "(\<Sum>a \<in> A. pair_count ps a b) = length (filter (\<lambda>p. snd p = b) ps)"
  using assms(2)
proof (induction ps)
  case Nil
  then show ?case by (simp add: pair_count_def)
next
  case (Cons p ps)
  obtain a' b' where p: "p = (a', b')" by (cases p)
  have a': "a' \<in> A" using Cons.prems p by simp
  have "(\<Sum>a \<in> A. pair_count (p # ps) a b) =
        (\<Sum>a \<in> A. pair_count ps a b + (if b' = b \<and> a' = a then 1 else 0))"
    by (rule sum.cong) (auto simp: pair_count_def p)
  also have "\<dots> = (\<Sum>a \<in> A. pair_count ps a b) + (\<Sum>a \<in> A. if b' = b \<and> a' = a then 1 else 0)"
    by (rule sum.distrib)
  also have "(\<Sum>a \<in> A. if b' = b \<and> a' = a then 1 else 0) = (if b' = b then 1 else (0::nat))"
    using assms(1) a' by (cases "b' = b") (simp_all add: sum.delta')
  also have "(\<Sum>a \<in> A. pair_count ps a b) = length (filter (\<lambda>p. snd p = b) ps)"
    using Cons by simp
  finally show ?case by (simp add: p)
qed

lemma sum_filter_fst:
  assumes "finite A" and "fst ` set ps \<subseteq> A"
  shows "(\<Sum>a \<in> A. length (filter (\<lambda>p. fst p = a) ps)) = length ps"
  using assms(2)
proof (induction ps)
  case Nil
  then show ?case by simp
next
  case (Cons p ps)
  have "(\<Sum>a \<in> A. length (filter (\<lambda>q. fst q = a) (p # ps))) =
        (\<Sum>a \<in> A. length (filter (\<lambda>q. fst q = a) ps) + (if fst p = a then 1 else 0))"
    by (rule sum.cong) auto
  also have "\<dots> = (\<Sum>a \<in> A. length (filter (\<lambda>q. fst q = a) ps)) + (\<Sum>a \<in> A. if fst p = a then 1 else 0)"
    by (rule sum.distrib)
  also have "(\<Sum>a \<in> A. if fst p = a then 1 else 0) = (1::nat)"
    using assms(1) Cons.prems by (simp add: sum.delta')
  finally show ?case using Cons by simp
qed

lemma tab_row_crosstab:
  "tab_row (pair_count ps) (labels (map snd ps)) a = length (filter (\<lambda>p. fst p = a) ps)"
proof -
  have "tab_row (pair_count ps) (labels (map snd ps)) a =
        (\<Sum>b \<in> set (labels (map snd ps)). pair_count ps a b)"
    unfolding tab_row_def by (rule sum_list_distinct_conv_sum_set) (rule distinct_labels)
  also have "\<dots> = length (filter (\<lambda>p. fst p = a) ps)"
    by (rule sum_pair_count_snd) (simp_all add: set_labels)
  finally show ?thesis .
qed

lemma tab_col_crosstab:
  "tab_col (pair_count ps) (labels (map fst ps)) b = length (filter (\<lambda>p. snd p = b) ps)"
proof -
  have "tab_col (pair_count ps) (labels (map fst ps)) b =
        (\<Sum>a \<in> set (labels (map fst ps)). pair_count ps a b)"
    unfolding tab_col_def by (rule sum_list_distinct_conv_sum_set) (rule distinct_labels)
  also have "\<dots> = length (filter (\<lambda>p. snd p = b) ps)"
    by (rule sum_pair_count_fst) (simp_all add: set_labels)
  finally show ?thesis .
qed

lemma tab_total_crosstab:
  "tab_total (pair_count ps) (labels (map fst ps)) (labels (map snd ps)) = length ps"
proof -
  have "tab_total (pair_count ps) (labels (map fst ps)) (labels (map snd ps)) =
        sum_list (map (\<lambda>a. length (filter (\<lambda>p. fst p = a) ps)) (labels (map fst ps)))"
    unfolding tab_total_def tab_row_crosstab [abs_def] ..
  also have "\<dots> = (\<Sum>a \<in> set (labels (map fst ps)). length (filter (\<lambda>p. fst p = a) ps))"
    by (rule sum_list_distinct_conv_sum_set) (rule distinct_labels)
  also have "\<dots> = length ps"
    by (rule sum_filter_fst) (simp_all add: set_labels)
  finally show ?thesis .
qed

lemma filter_fst_pos: "a \<in> fst ` set ps \<Longrightarrow> 0 < length (filter (\<lambda>p. fst p = a) ps)"
  by (auto simp: filter_empty_conv)

lemma filter_snd_pos: "b \<in> snd ` set ps \<Longrightarrow> 0 < length (filter (\<lambda>p. snd p = b) ps)"
  by (auto simp: filter_empty_conv)

text \<open>The expected count of a cell of the cross table, and that it is positive.\<close>

lemma tab_expected_crosstab:
  "tab_expected (\<lambda>a b. real (pair_count ps a b)) (labels (map fst ps)) (labels (map snd ps)) a b =
     real (length (filter (\<lambda>p. fst p = a) ps)) * real (length (filter (\<lambda>p. snd p = b) ps))
       / real (length ps)"
  unfolding tab_expected_def tab_real_row tab_real_col tab_real_total
    tab_row_crosstab tab_col_crosstab tab_total_crosstab ..

lemma tab_expected_crosstab_pos:
  assumes "a \<in> set (labels (map fst ps))" and "b \<in> set (labels (map snd ps))"
  shows "0 < tab_expected (\<lambda>a b. real (pair_count ps a b)) (labels (map fst ps)) (labels (map snd ps)) a b"
proof -
  have a: "0 < length (filter (\<lambda>p. fst p = a) ps)"
    using assms(1) by (intro filter_fst_pos) (simp add: set_labels)
  have b: "0 < length (filter (\<lambda>p. snd p = b) ps)"
    using assms(2) by (intro filter_snd_pos) (simp add: set_labels)
  have "ps \<noteq> []" using a by auto
  then have "0 < length ps" by simp
  then show ?thesis unfolding tab_expected_crosstab using a b by simp
qed

subsection \<open>What \<open>cramers_v\<close> returns\<close>

lemma shape_crosstab:
  "shape (crosstab x y) =
     (length (labels (map fst (observed_pairs x y))), length (labels (map snd (observed_pairs x y))))"
proof (cases "observed_pairs x y = []")
  case True
  then show ?thesis by (simp add: crosstab_tab labels_def tab_def shape_def)
next
  case False
  then have "labels (map fst (observed_pairs x y)) \<noteq> []" by (simp add: labels_Nil)
  then show ?thesis unfolding crosstab_tab by (rule shape_tab)
qed

lemma cramers_v_no_pairs:
  assumes "observed_pairs x y = []"
  shows "cramers_v x y = Inl ValueError"
  using assms
  by (simp add: cramers_v_def crosstab_tab labels_def tab_def chi2_contingency_def shape_def)

lemma cramers_v_pairs:
  assumes "observed_pairs x y = ps" and "ps \<noteq> []"
  shows "cramers_v x y =
     Inr (np_sqrt (np_div (Fin (crosstab_chi2 ps))
        (Fin (of_int (int (length ps) *
           (int (min (length (labels (map fst ps))) (length (labels (map snd ps)))) - 1))))))"
proof -
  define rl where "rl = labels (map fst ps)"
  define cl where "cl = labels (map snd ps)"
  have rl: "rl \<noteq> []" and cl: "cl \<noteq> []" using assms(2) by (simp_all add: rl_def cl_def labels_Nil)
  have t: "crosstab x y = tab (pair_count ps) rl cl"
    unfolding crosstab_tab assms(1) rl_def cl_def ..
  have nz: "\<not> (\<exists>a \<in> set rl. \<exists>b \<in> set cl.
      tab_expected (\<lambda>a b. real (pair_count ps a b)) rl cl a b = 0)"
    using tab_expected_crosstab_pos [of _ ps] unfolding rl_def cl_def by fastforce
  have c: "chi2_contingency (tab (pair_count ps) rl cl) = Inr (crosstab_chi2 ps)"
    unfolding chi2_contingency_tab [OF rl cl] crosstab_chi2_def Let_def
      rl_def [symmetric] cl_def [symmetric]
    using nz by simp
  have n: "sum_list (col_sums (tab (pair_count ps) rl cl)) = length ps"
    unfolding col_sums_tab [OF rl] total_tab_cols
    unfolding rl_def cl_def by (rule tab_total_crosstab)
  have s: "shape (tab (pair_count ps) rl cl) = (length rl, length cl)"
    using rl by (rule shape_tab)
  show ?thesis
    unfolding cramers_v_def t Let_def c n s rl_def [symmetric] cl_def [symmetric] by simp
qed

lemma crosstab_chi2_swap: "crosstab_chi2 (map prod.swap ps) = crosstab_chi2 ps"
proof -
  define rl where "rl = labels (map fst ps)"
  define cl where "cl = labels (map snd ps)"
  have f: "map fst (map prod.swap ps) = map snd ps" and s: "map snd (map prod.swap ps) = map fst ps"
    by (simp_all add: comp_def)
  have g: "(\<lambda>b a. real (pair_count (map prod.swap ps) b a)) = (\<lambda>b a. real (pair_count ps a b))"
    by (simp add: pair_count_swap)
  have st: "tab_stat adj (\<lambda>b a. real (pair_count ps a b)) cl rl =
            tab_stat adj (\<lambda>a b. real (pair_count ps a b)) rl cl" for adj
    by (rule tab_stat_swap)
  show ?thesis
    unfolding crosstab_chi2_def f s g Let_def rl_def [symmetric] cl_def [symmetric]
      tab_dof_swap [of cl rl] st ..
qed

lemma tab_stat_nonneg:
  assumes "\<And>a b. a \<in> set rl \<Longrightarrow> b \<in> set cl \<Longrightarrow> 0 < tab_expected g rl cl a b"
  shows "0 \<le> tab_stat adj g rl cl"
  unfolding tab_stat_def
  by (intro sum_list_nonneg) (auto intro!: sum_list_nonneg divide_nonneg_pos assms)

lemma crosstab_chi2_nonneg: "0 \<le> crosstab_chi2 ps"
  unfolding crosstab_chi2_def Let_def
  by (auto intro!: tab_stat_nonneg tab_expected_crosstab_pos)

lemma np_div_Fin: "b \<noteq> 0 \<Longrightarrow> np_div (Fin a) (Fin b) = Fin (a / b)"
  by simp

lemma np_sqrt_Fin: "0 \<le> a \<Longrightarrow> np_sqrt (Fin a) = Fin (sqrt a)"
  by simp

lemma cramers_v_Fin:
  assumes "observed_pairs x y = ps"
    and "2 \<le> length (labels (map fst ps))" and "2 \<le> length (labels (map snd ps))"
  shows "cramers_v x y =
     Inr (Fin (sqrt (crosstab_chi2 ps /
        (real (length ps) *
           (real (min (length (labels (map fst ps))) (length (labels (map snd ps)))) - 1)))))"
proof -
  define m where "m = min (length (labels (map fst ps))) (length (labels (map snd ps)))"
  have m: "2 \<le> m" using assms(2,3) by (simp add: m_def)
  have ne: "ps \<noteq> []" using assms(2) by (auto simp: labels_def)
  then have n: "0 < length ps" by simp
  have d: "real_of_int (int (length ps) * (int m - 1)) = real (length ps) * (real m - 1)"
    using m by simp
  have dpos: "0 < real (length ps) * (real m - 1)" using n m by simp
  have q: "0 \<le> crosstab_chi2 ps / (real (length ps) * (real m - 1))"
    using crosstab_chi2_nonneg [of ps] dpos by simp
  have nz: "real (length ps) * (real m - 1) \<noteq> 0"
    using dpos by (metis less_irrefl)
  have "np_div (Fin (crosstab_chi2 ps)) (Fin (real (length ps) * (real m - 1))) =
        Fin (crosstab_chi2 ps / (real (length ps) * (real m - 1)))"
    using nz by (rule np_div_Fin)
  moreover have "np_sqrt (Fin (crosstab_chi2 ps / (real (length ps) * (real m - 1)))) =
        Fin (sqrt (crosstab_chi2 ps / (real (length ps) * (real m - 1))))"
    using q by (rule np_sqrt_Fin)
  ultimately show ?thesis
    unfolding cramers_v_pairs [OF assms(1) ne] m_def [symmetric] d by (simp only:)
qed

subsection \<open>Agreement with the specification outside two-by-two tables\<close>

lemma tab_dof_large:
  assumes "2 \<le> length rl" and "2 \<le> length cl" and "\<not> (length rl = 2 \<and> length cl = 2)"
  shows "tab_dof rl cl \<noteq> 0 \<and> tab_dof rl cl \<noteq> 1"
proof -
  obtain r where r: "length rl = r + 2" using assms(1) by (metis add.commute le_Suc_ex)
  obtain k where k: "length cl = k + 2" using assms(2) by (metis add.commute le_Suc_ex)
  have "0 < r + k" using assms(3) r k by auto
  then have "2 \<le> r * k + r + k + 1" by linarith
  then have "2 \<le> int (r * k + r + k + 1)" by (simp only: of_nat_le_iff [symmetric, where 'a = int] of_nat_numeral)
  moreover have "tab_dof rl cl = int (r * k + r + k + 1)"
    unfolding tab_dof_def r k by (simp add: algebra_simps)
  ultimately show ?thesis by simp
qed

lemma crosstab_chi2_spec:
  fixes ps :: "('a::linorder \<times> 'b::linorder) list"
  assumes "2 \<le> length (labels (map fst ps))" and "2 \<le> length (labels (map snd ps))"
    and "\<not> (length (labels (map fst ps)) = 2 \<and> length (labels (map snd ps)) = 2)"
  shows "crosstab_chi2 ps = spec_chi2 ps"
proof -
  define rl where "rl = labels (map fst ps)"
  define cl where "cl = labels (map snd ps)"
  define E where "E = tab_expected (\<lambda>a b. real (pair_count ps a b)) rl cl"
  have d: "tab_dof rl cl \<noteq> 0 \<and> tab_dof rl cl \<noteq> 1"
    using assms unfolding rl_def cl_def by (rule tab_dof_large)
  have E: "E a b = spec_expected ps a b" for a b
    unfolding E_def rl_def cl_def tab_expected_crosstab spec_expected_def ..
  have srl: "set rl = fst ` set ps" and scl: "set cl = snd ` set ps"
    by (simp_all add: rl_def cl_def set_labels)
  have drl: "distinct rl" and dcl: "distinct cl"
    by (simp_all add: rl_def cl_def distinct_labels)
  have "crosstab_chi2 ps = tab_stat (\<lambda>ob ex. ob) (\<lambda>a b. real (pair_count ps a b)) rl cl"
    unfolding crosstab_chi2_def Let_def rl_def [symmetric] cl_def [symmetric] using d by simp
  also have "\<dots> = sum_list (map (\<lambda>a. sum_list (map (\<lambda>b.
        (real (pair_count ps a b) - E a b)\<^sup>2 / E a b) cl)) rl)"
    unfolding tab_stat_def E_def ..
  also have "\<dots> = sum_list (map (\<lambda>a. sum_list (map (\<lambda>b.
        (spec_count ps a b - spec_expected ps a b)\<^sup>2 / spec_expected ps a b) cl)) rl)"
    unfolding E spec_count_def pair_count_def ..
  also have "\<dots> = sum_list (map (\<lambda>a. \<Sum>b \<in> set cl.
        (spec_count ps a b - spec_expected ps a b)\<^sup>2 / spec_expected ps a b) rl)"
    by (simp add: sum_list_distinct_conv_sum_set [OF dcl])
  also have "\<dots> = (\<Sum>a \<in> set rl. \<Sum>b \<in> set cl.
        (spec_count ps a b - spec_expected ps a b)\<^sup>2 / spec_expected ps a b)"
    by (rule sum_list_distinct_conv_sum_set [OF drl])
  finally show ?thesis unfolding spec_chi2_def srl scl .
qed

lemma card_labels_fst: "card (fst ` set ps) = length (labels (map fst ps))"
proof -
  have "card (set (labels (map fst ps))) = length (labels (map fst ps))"
    by (rule distinct_card) (rule distinct_labels)
  then show ?thesis by (simp add: set_labels)
qed

lemma card_labels_snd: "card (snd ` set ps) = length (labels (map snd ps))"
proof -
  have "card (set (labels (map snd ps))) = length (labels (map snd ps))"
    by (rule distinct_card) (rule distinct_labels)
  then show ?thesis by (simp add: set_labels)
qed

lemma cramers_v_matches_spec:
  assumes "shape (crosstab x y) = (r, k)" and "2 \<le> r" and "2 \<le> k" and "\<not> (r = 2 \<and> k = 2)"
  shows "cramers_v x y = Inr (Fin (spec_cramers_v x y))"
proof -
  define ps where "ps = observed_pairs x y"
  have r: "r = length (labels (map fst ps))" and k: "k = length (labels (map snd ps))"
    using assms(1) unfolding shape_crosstab ps_def by simp_all
  have c: "crosstab_chi2 ps = spec_chi2 ps"
    by (rule crosstab_chi2_spec) (use assms(2,3,4) r k in simp_all)
  have "cramers_v x y =
     Inr (Fin (sqrt (crosstab_chi2 ps /
        (real (length ps) *
           (real (min (length (labels (map fst ps))) (length (labels (map snd ps)))) - 1)))))"
    by (rule cramers_v_Fin) (use assms(2,3) r k ps_def in simp_all)
  then show ?thesis
    unfolding c spec_cramers_v_def ps_def [symmetric] Let_def card_labels_fst card_labels_snd .
qed

subsection \<open>Sample series\<close>

lemma pairs_00_01: "observed_pairs col_00 col_01 = [(0, 0), (0, 1)]"
  by (simp add: observed_pairs_def col_00_def col_01_def List.map_filter_simps)

lemma crosstab_00_01: "crosstab col_00 col_01 = [[1, 1]]"
  unfolding crosstab_def pairs_00_01 by (simp add: Let_def)

lemma pairs_0011_0011:
  "observed_pairs col_0011 col_0011 = [(0, 0), (0, 0), (1, 1), (1, 1)]"
  by (simp add: observed_pairs_def col_0011_def List.map_filter_simps)

lemma crosstab_0011_0011: "crosstab col_0011 col_0011 = [[2, 0], [0, 2]]"
  unfolding crosstab_def pairs_0011_0011 by (simp add: Let_def)

lemma expected_2002: "expected_freq [[2, 0], [0, 2]] = [[1, 1], [1, 1]]"
  by (simp add: expected_freq_def row_sums_def col_sums_def shape_def)

lemma chi2_2002: "chi2_contingency [[2, 0], [0, 2]] = Inr 1"
proof -
  have y: "yates [[2, 0], [0, 2]] [[1, 1], [1, 1]] = [[3 / 2, 1 / 2], [1 / 2, 3 / 2]]"
    by (simp add: yates_def)
  have p: "pearson [[3 / 2, 1 / 2], [1 / 2, 3 / 2]] [[1, 1], [1, 1]] = 1"
    by (simp add: pearson_def power2_eq_square)
  show ?thesis
    unfolding chi2_contingency_def by (simp add: shape_def expected_2002 y p)
qed

lemma cramers_v_0011: "cramers_v col_0011 col_0011 = Inr (Fin (1 / 2))"
proof -
  have "sqrt (1 / 4) = 1 / 2" by (simp add: real_sqrt_divide)
  then show ?thesis
    unfolding cramers_v_def crosstab_0011_0011 Let_def chi2_2002
    by (simp add: col_sums_def shape_def)
qed

lemma spec_0011: "spec_cramers_v col_0011 col_0011 = 1"
proof -
  have s: "set [(0::nat, 0::nat), (0, 0), (1, 1), (1, 1)] = {(0, 0), (1, 1)}" by auto
  have f: "fst ` {(0::nat, 0::nat), (1, 1)} = {0, 1}" and g: "snd ` {(0::nat, 0::nat), (1, 1)} = {0, 1}"
    by auto
  have c: "spec_chi2 [(0::nat, 0::nat), (0, 0), (1, 1), (1, 1)] = 4"
    unfolding spec_chi2_def s f g
    by (simp add: spec_count_def spec_expected_def power2_eq_square)
  show ?thesis
    unfolding spec_cramers_v_def pairs_0011_0011 Let_def c s f g by simp
qed

lemma chi2_11: "chi2_contingency [[1, 1]] = Inr 0"
  unfolding chi2_contingency_def
  by (simp add: shape_def expected_freq_def row_sums_def col_sums_def)

lemma pairs_012_000: "observed_pairs col_012 col_000 = [(0, 0), (1, 0), (2, 0)]"
  by (simp add: observed_pairs_def col_012_def col_000_def List.map_filter_simps)

lemma crosstab_012_000: "crosstab col_012 col_000 = [[1], [1], [1]]"
  unfolding crosstab_def pairs_012_000 by (simp add: Let_def)

subsection \<open>The claims on \<open>cramers_v\<close>\<close>

text \<open>
  Claim C1, at two columns that agree in every row, with two labels: the cross table
  is two by two, so \<open>chi2_contingency\<close> applies Yates' correction and \<open>cramers_v\<close>
  returns 1/2, where the formula of the claim, on the uncorrected statistic, gives 1.
  Outside two-by-two tables the two agree (\<open>cramers_v_matches_spec\<close>).
\<close>

theorem cramers_v_two_by_two:
  "crosstab col_0011 col_0011 = [[2, 0], [0, 2]] \<and>
   cramers_v col_0011 col_0011 = Inr (Fin (1 / 2)) \<and>
   spec_cramers_v col_0011 col_0011 = 1"
  using crosstab_0011_0011 cramers_v_0011 spec_0011 by simp

lemma pairs_01NA_001: "observed_pairs col_01_NA col_001 = [(0, 0), (1, 0)]"
  by (simp add: observed_pairs_def col_01_NA_def col_001_def List.map_filter_simps)

lemma crosstab_01NA_001: "crosstab col_01_NA col_001 = [[1], [1]]"
  unfolding crosstab_def pairs_01NA_001 by (simp add: Let_def)

lemma pairs_001_01NA: "observed_pairs col_001 col_01_NA = [(0, 0), (0, 1)]"
  by (simp add: observed_pairs_def col_01_NA_def col_001_def List.map_filter_simps)

lemma crosstab_001_01NA: "crosstab col_001 col_01_NA = [[1, 1]]"
  unfolding crosstab_def pairs_001_01NA by (simp add: Let_def)

lemma chi2_1_1: "chi2_contingency [[1], [1]] = Inr 0"
  unfolding chi2_contingency_def
  by (simp add: shape_def expected_freq_def row_sums_def col_sums_def)

lemma cramers_v_01NA_001: "cramers_v col_01_NA col_001 = Inr NaN"
  unfolding cramers_v_def crosstab_01NA_001 Let_def chi2_1_1
  by (simp add: col_sums_def shape_def)

lemma cramers_v_001_01NA: "cramers_v col_001 col_01_NA = Inr NaN"
  unfolding cramers_v_def crosstab_001_01NA Let_def chi2_11
  by (simp add: col_sums_def shape_def)

lemma categories_samples: "categories col_01_NA = [0, 1]" "categories col_001 = [0, 1]"
  by (simp_all add: categories_def col_01_NA_def col_001_def List.map_filter_simps)

text \<open>
  Claim C2 as stated fails. The series 0, 1, missing and the series 0, 0, 1 have two
  observed categories each; the cross table keeps the two rows in which both have a
  label, so it is two by one (one by two in the other order), and \<open>cramers_v\<close>
  returns NaN for both orders. NaN is not within any tolerance of NaN.
\<close>

theorem cramers_v_missing_label:
  "categories col_01_NA = [0, 1] \<and> categories col_001 = [0, 1] \<and>
   crosstab col_01_NA col_001 = [[1], [1]] \<and>
   cramers_v col_01_NA col_001 = Inr NaN \<and> cramers_v col_001 col_01_NA = Inr NaN \<and>
   \<not> np_close (1 / 10 ^ 9) NaN NaN"
  using categories_samples crosstab_01NA_001 cramers_v_01NA_001 cramers_v_001_01NA
  by (simp add: np_close_def np_sub_def)

text \<open>
  Claim C2, amended to the categories of the cross table. When the cross table, built
  from the rows in which both series have a label, has at least two rows and two
  columns, \<open>cramers_v\<close> returns a finite value for both orders of its arguments, and
  the two values are equal, so within any tolerance.
\<close>

theorem cramers_v_symmetric:
  assumes "shape (crosstab a b) = (r, k)" and "2 \<le> r" and "2 \<le> k"
  shows "\<exists>v w. cramers_v a b = Inr (Fin v) \<and> cramers_v b a = Inr (Fin w) \<and>
           v = w \<and> \<bar>v - w\<bar> \<le> 1 / 10 ^ 9"
proof -
  define ps where "ps = observed_pairs a b"
  have r: "r = length (labels (map fst ps))" and k: "k = length (labels (map snd ps))"
    using assms(1) unfolding shape_crosstab ps_def by simp_all
  have sw: "observed_pairs b a = map prod.swap ps"
    unfolding ps_def by (rule observed_pairs_swap)
  have f: "map fst (map prod.swap ps) = map snd ps" and s: "map snd (map prod.swap ps) = map fst ps"
    by (simp_all add: comp_def)
  have 1: "cramers_v a b =
     Inr (Fin (sqrt (crosstab_chi2 ps / (real (length ps) * (real (min r k) - 1)))))"
    unfolding r k by (rule cramers_v_Fin) (use assms(2,3) r k ps_def in simp_all)
  have "cramers_v b a =
     Inr (Fin (sqrt (crosstab_chi2 (map prod.swap ps) / (real (length (map prod.swap ps)) *
        (real (min (length (labels (map fst (map prod.swap ps))))
                   (length (labels (map snd (map prod.swap ps))))) - 1)))))"
    by (rule cramers_v_Fin [OF sw]) (use assms(2,3) r k in \<open>simp_all only: f s\<close>)
  then have 2: "cramers_v b a =
     Inr (Fin (sqrt (crosstab_chi2 ps / (real (length ps) * (real (min r k) - 1)))))"
    unfolding crosstab_chi2_swap f s r k by (simp add: min.commute)
  from 1 2 show ?thesis by simp
qed

lemma pairs_0011_0101:
  "observed_pairs col_0011 col_0101 = [(0, 0), (0, 1), (1, 0), (1, 1)]"
  by (simp add: observed_pairs_def col_0011_def col_0101_def List.map_filter_simps)

lemma crosstab_0011_0101: "crosstab col_0011 col_0101 = [[1, 1], [1, 1]]"
  unfolding crosstab_def pairs_0011_0101 by (simp add: Let_def)

text \<open>The hypotheses of C2 hold for two series with a two-by-two cross table.\<close>

theorem cramers_v_symmetric_witness:
  "\<exists>v w. cramers_v col_0011 col_0101 = Inr (Fin v) \<and> cramers_v col_0101 col_0011 = Inr (Fin w) \<and>
     v = w \<and> \<bar>v - w\<bar> \<le> 1 / 10 ^ 9"
proof -
  have "shape (crosstab col_0011 col_0101) = (2, 2)"
    unfolding crosstab_0011_0101 by (simp add: shape_def)
  then show ?thesis
    using cramers_v_symmetric [of col_0011 col_0101 2 2] by simp
qed

text \<open>
  Claim C5 as stated fails: on a cross table with one row and two columns \<open>cramers_v\<close>
  raises nothing and returns NaN.
\<close>

theorem cramers_v_one_row:
  "shape (crosstab col_00 col_01) = (1, 2) \<and> cramers_v col_00 col_01 = Inr NaN"
  unfolding cramers_v_def crosstab_00_01 Let_def chi2_11
  by (simp add: col_sums_def shape_def)

text \<open>
  Claim C5, amended. When the smaller dimension of the cross table is 1, \<open>cramers_v\<close>
  returns NaN: the statistic is 0 for want of a degree of freedom, and numpy divides
  it by zero without raising.
\<close>

theorem cramers_v_single_category:
  assumes "shape (crosstab x y) = (r, k)" and "min r k = 1"
  shows "cramers_v x y = Inr NaN"
proof -
  define ps where "ps = observed_pairs x y"
  have r: "r = length (labels (map fst ps))" and k: "k = length (labels (map snd ps))"
    using assms(1) unfolding shape_crosstab ps_def by simp_all
  have "0 < r" using assms(2) by (cases r) simp_all
  then have ne: "ps \<noteq> []" unfolding r by (auto simp: labels_def)
  have "r = 1 \<or> k = 1" using assms(2) by (auto simp: min_def split: if_splits)
  then have "tab_dof (labels (map fst ps)) (labels (map snd ps)) = 0"
    unfolding tab_dof_def r [symmetric] k [symmetric] by auto
  then have c: "crosstab_chi2 ps = 0" by (simp add: crosstab_chi2_def)
  show ?thesis
    unfolding cramers_v_pairs [OF ps_def [symmetric] ne] c r [symmetric] k [symmetric] assms(2)
    by simp
qed

text \<open>A cross table with three rows and one column.\<close>

theorem cramers_v_single_category_witness:
  "cramers_v col_012 col_000 = Inr NaN"
proof -
  have "shape (crosstab col_012 col_000) = (3, 1)"
    unfolding crosstab_012_000 by (simp add: shape_def)
  then show ?thesis
    using cramers_v_single_category [of col_012 col_000 3 1] by simp
qed

section \<open>Association of a numeric and several categorical columns: proofs\<close>

lemma two_columns_facts:
  "columns (two_columns vs) = [''g'', ''v'']"
  "map (\<lambda>r. r ''g'') (rows (two_columns vs)) = map fst vs"
  "map (\<lambda>r. r ''v'') (rows (two_columns vs)) = map snd vs"
  by (simp_all add: two_columns_def pair_row_def comp_def case_prod_beta)

lemma f_oneway_error:
  "f_oneway ftest samples = Inl e \<Longrightarrow> e = TypeError \<or> (\<exists>s. ftest s = Inl e)"
  by (auto simp: f_oneway_def split: if_splits)

lemma f_oneway_few: "length samples < 2 \<Longrightarrow> f_oneway ftest samples = Inl TypeError"
  by (simp add: f_oneway_def)

lemma groups_of_ok:
  assumes "col \<in> set (columns df)" and "numeric_feature \<in> set (columns df)"
  shows "\<exists>groups. groups_of df numeric_feature col = Inr groups \<and>
           length groups = length (unique (map (\<lambda>r. r col) (rows df)))"
  using assms by (simp add: groups_of_def getcol_def)

lemma p_values_loop_fails:
  assumes "set cols \<subseteq> set (columns df)" and "numeric_feature \<in> set (columns df)"
    and "\<exists>col \<in> set cols. length (unique (map (\<lambda>r. r col) (rows df))) < 2"
  shows "\<exists>e. p_values_loop ftest df numeric_feature cols acc = Inl e \<and>
           (e = TypeError \<or> (\<exists>s. ftest s = Inl e))"
  using assms
proof (induction cols arbitrary: acc)
  case Nil
  then show ?case by simp
next
  case (Cons col cols)
  from Cons.prems(1,2) obtain groups where g: "groups_of df numeric_feature col = Inr groups"
    and lg: "length groups = length (unique (map (\<lambda>r. r col) (rows df)))"
    using groups_of_ok [of col df numeric_feature] by auto
  show ?case
  proof (cases "f_oneway ftest groups")
    case (Inl e)
    then show ?thesis using g f_oneway_error [OF Inl] by simp
  next
    case (Inr p)
    have "\<not> length groups < 2" using Inr f_oneway_few [of groups ftest] by auto
    then have "\<exists>col \<in> set cols. length (unique (map (\<lambda>r. r col) (rows df))) < 2"
      using Cons.prems(3) lg by auto
    moreover have "set cols \<subseteq> set (columns df)" using Cons.prems(1) by simp
    ultimately have "\<exists>e. p_values_loop ftest df numeric_feature cols (AList.update col p acc) = Inl e \<and>
           (e = TypeError \<or> (\<exists>s. ftest s = Inl e))"
      using Cons.IH Cons.prems(2) by blast
    then show ?thesis using g Inr by simp
  qed
qed

lemma unique_one_label: "unique [Str ''a'', Str ''a''] = [Str ''a'']"
  by (simp add: unique_def)

text \<open>
  Claim C8, amended. When the frame has the columns named, and some categorical column
  has fewer than two distinct cells, a missing cell counting as one, the function
  fails: with the TypeError of \<open>f_oneway\<close>, unless the F test itself raised on an
  earlier column.
\<close>

theorem anova_fewer_than_two_groups:
  assumes "set categorical_columns \<subseteq> set (columns df)"
    and "numeric_feature \<in> set (columns df)"
    and "\<exists>col \<in> set categorical_columns. length (unique (map (\<lambda>r. r col) (rows df))) < 2"
  shows "\<exists>e. categorical_and_numeric_correlation ftest df numeric_feature categorical_columns = Inl e \<and>
           (e = TypeError \<or> (\<exists>s. ftest s = Inl e))"
  unfolding categorical_and_numeric_correlation_def
  using assms by (rule p_values_loop_fails)

text \<open>A categorical column with the single label \<open>a\<close> raises TypeError.\<close>

theorem anova_fewer_than_two_groups_witness:
  "categorical_and_numeric_correlation ftest1 one_label ''v'' [''g''] = Inl TypeError"
proof -
  have c: "set [''g''] \<subseteq> set (columns one_label)" and n: "''v'' \<in> set (columns one_label)"
    by (simp_all add: one_label_def two_columns_facts)
  have u: "\<exists>col \<in> set [''g'']. length (unique (map (\<lambda>r. r col) (rows one_label))) < 2"
    by (simp add: one_label_def two_columns_facts(2) unique_one_label)
  show ?thesis
    using anova_fewer_than_two_groups [of "[''g'']" one_label "''v''" ftest1] c n u
    by (auto simp: ftest1_def)
qed

lemma groups_label_and_missing:
  "groups_of label_and_missing ''v'' ''g'' = Inr [[Num 1], []]"
  by (simp add: groups_of_def getcol_def label_and_missing_def two_columns_facts unique_def
      group_of_def eq_cell_def)

text \<open>
  Claim C8 as stated fails: a column with one label and a missing cell gives two
  groups, the one of the missing label empty. That is one non-empty group, yet nothing
  is raised and the p-value is NaN.
\<close>

theorem anova_label_and_missing:
  "groups_of label_and_missing ''v'' ''g'' = Inr [[Num 1], []] \<and>
   categorical_and_numeric_correlation ftest1 label_and_missing ''v'' [''g''] = Inr [(''g'', NaN)]"
  by (simp add: categorical_and_numeric_correlation_def groups_label_and_missing f_oneway_def)

end
